theory Spec2Isabelle
  imports Complex_Main "HOL-Library.Char_ord" "HOL-Library.List_Lexorder"
begin

section \<open>The store: server/database.ts\<close>

text \<open>
  The two relations of the schema. A table is the list of its rows in rowid order, which
  is the order of insertion: no row is ever deleted. A string is kept as the bytes of its
  UTF-8 encoding, which is how the store holds it. A timestamp is a number of
  milliseconds and need not be whole: Date.now gives a whole number, but the seeding
  subtracts a random fraction of a week from it, and the column keeps the fraction.
\<close>

record chat_row =
  cr_id :: string
  cr_title :: string
  cr_lastMessageAt :: real
  cr_unreadCount :: int
  cr_createdAt :: int

record message_row =
  mr_id :: string
  mr_chatId :: string
  mr_ts :: real
  mr_sender :: string
  mr_body :: string
  mr_createdAt :: int

text \<open>
  \<open>foreign_keys\<close> is the connection's foreign-key pragma: with it on, the constraint
  \<^verbatim>\<open>FOREIGN KEY(chatId) REFERENCES chats(id)\<close> of the schema is enforced on insertion.
\<close>

record database =
  chats_tbl :: "chat_row list"
  messages_tbl :: "message_row list"
  foreign_keys :: bool

text \<open>The rows the read queries return (the interfaces Chat and Message of store/index.ts).\<close>

record chat =
  chat_id :: string
  title :: string
  lastMessageAt :: real
  unreadCount :: int

record message =
  msg_id :: string
  chatId :: string
  ts :: real
  sender :: string
  body :: string

datatype db_error =
  ConstraintPrimaryKey | ConstraintForeignKey | Mismatch | PatternTooComplex | Crash

text \<open>
  A statement runs on the store and either completes or throws; when it throws, the store
  it leaves behind is the store as far as the work got. \<open>transaction\<close> is the wrapper
  \<^verbatim>\<open>database.transaction(fn)\<close>: it commits when the body completes, and when the body
  throws it rolls the store back to what it was and throws again.
\<close>

type_synonym stmt = "database \<Rightarrow> db_error option \<times> database"

definition and_then :: "stmt \<Rightarrow> stmt \<Rightarrow> stmt" where
  "and_then s1 s2 = (\<lambda>db. case s1 db of (Some e, d) \<Rightarrow> (Some e, d) | (None, d) \<Rightarrow> s2 d)"

definition transaction :: "stmt \<Rightarrow> stmt" where
  "transaction fn = (\<lambda>db. case fn db of (Some e, d) \<Rightarrow> (Some e, db) | (None, d) \<Rightarrow> (None, d))"

definition insertChat_run :: "chat_row \<Rightarrow> stmt" where
  "insertChat_run r = (\<lambda>db.
     if cr_id r \<in> set (map cr_id (chats_tbl db)) then (Some ConstraintPrimaryKey, db)
     else (None, db\<lparr>chats_tbl := chats_tbl db @ [r]\<rparr>))"

definition insertMessage_run :: "message_row \<Rightarrow> stmt" where
  "insertMessage_run r = (\<lambda>db.
     if mr_id r \<in> set (map mr_id (messages_tbl db)) then (Some ConstraintPrimaryKey, db)
     else if foreign_keys db \<and> mr_chatId r \<notin> set (map cr_id (chats_tbl db))
       then (Some ConstraintForeignKey, db)
     else (None, db\<lparr>messages_tbl := messages_tbl db @ [r]\<rparr>))"

text \<open>
  \<^verbatim>\<open>UPDATE chats SET lastMessageAt = ?, unreadCount = unreadCount + 1 WHERE id = ?\<close>
\<close>

definition bump_chat :: "real \<Rightarrow> string \<Rightarrow> chat_row \<Rightarrow> chat_row" where
  "bump_chat t cid c =
     (if cr_id c = cid then c\<lparr>cr_lastMessageAt := t, cr_unreadCount := cr_unreadCount c + 1\<rparr>
      else c)"

definition updateChat_run :: "real \<Rightarrow> string \<Rightarrow> stmt" where
  "updateChat_run t cid = (\<lambda>db. (None, db\<lparr>chats_tbl := map (bump_chat t cid) (chats_tbl db)\<rparr>))"

text \<open>
  A test harness's simulated crash: where, inside the body of addMessage, the exception
  is thrown. \<open>NoCrash\<close> is the code as it runs in production.
\<close>

datatype crash_point = NoCrash | BeforeInsert | BetweenStatements | BeforeCommit

definition crash_at :: "crash_point \<Rightarrow> crash_point \<Rightarrow> stmt" where
  "crash_at here cp = (\<lambda>db. (if cp = here then Some Crash else None, db))"

text \<open>
  addMessage: \<open>uid\<close> is the value of its call of uuidv4 and \<open>now\<close> of its call of Date.now.
  \<open>addMessage_body\<close> is the function handed to \<^verbatim>\<open>database.transaction\<close>.
\<close>

definition new_row :: "string \<Rightarrow> int \<Rightarrow> string \<Rightarrow> string \<Rightarrow> string \<Rightarrow> real \<Rightarrow> message_row" where
  "new_row uid now cid sndr bdy t =
     \<lparr>mr_id = uid, mr_chatId = cid, mr_ts = t, mr_sender = sndr, mr_body = bdy, mr_createdAt = now\<rparr>"

definition addMessage_body ::
  "crash_point \<Rightarrow> string \<Rightarrow> int \<Rightarrow> string \<Rightarrow> string \<Rightarrow> string \<Rightarrow> real \<Rightarrow> stmt" where
  "addMessage_body cp uid now cid sndr bdy t =
     and_then (crash_at BeforeInsert cp)
    (and_then (insertMessage_run (new_row uid now cid sndr bdy t))
    (and_then (crash_at BetweenStatements cp)
    (and_then (updateChat_run t cid)
              (crash_at BeforeCommit cp))))"

definition addMessage ::
  "crash_point \<Rightarrow> string \<Rightarrow> int \<Rightarrow> string \<Rightarrow> string \<Rightarrow> string \<Rightarrow> real \<Rightarrow> stmt" where
  "addMessage cp uid now cid sndr bdy t = transaction (addMessage_body cp uid now cid sndr bdy t)"

definition markChatAsRead :: "string \<Rightarrow> database \<Rightarrow> database" where
  "markChatAsRead cid db =
     db\<lparr>chats_tbl := map (\<lambda>c. if cr_id c = cid then c\<lparr>cr_unreadCount := 0\<rparr> else c) (chats_tbl db)\<rparr>"

subsection \<open>The read queries\<close>

text \<open>
  \<^verbatim>\<open>ORDER BY k DESC\<close> names one key and nothing else; rows with equal keys come out in
  the order the scan delivers them, the rowid order of the table. \<^verbatim>\<open>LIMIT l OFFSET o\<close>
  skips \<open>o\<close> rows and keeps \<open>l\<close>; a negative limit means no limit and a negative
  offset is taken as zero. Both must be 64-bit integers: a number bound to either that is
  outside that range makes the statement throw a datatype mismatch before any row is
  read. (A number with a fraction is refused the same way; \<open>int\<close> has none.)
\<close>

definition order_by_desc :: "('a \<Rightarrow> real) \<Rightarrow> 'a list \<Rightarrow> 'a list" where
  "order_by_desc k rows = sort_key (\<lambda>r. - k r) rows"

definition int64 :: "int \<Rightarrow> bool" where
  "int64 n = (- (2 ^ 63) \<le> n \<and> n < 2 ^ 63)"

definition limit_offset :: "int \<Rightarrow> int \<Rightarrow> 'a list \<Rightarrow> 'a list" where
  "limit_offset l off rows =
     (let rest = drop (nat off) rows in if l < 0 then rest else take (nat l) rest)"

definition chat_of_row :: "chat_row \<Rightarrow> chat" where
  "chat_of_row r =
     \<lparr>chat_id = cr_id r, title = cr_title r, lastMessageAt = cr_lastMessageAt r,
      unreadCount = cr_unreadCount r\<rparr>"

definition message_of_row :: "message_row \<Rightarrow> message" where
  "message_of_row r =
     \<lparr>msg_id = mr_id r, chatId = mr_chatId r, ts = mr_ts r, sender = mr_sender r,
      body = mr_body r\<rparr>"

text \<open>
  \<open>query_chats\<close> and \<open>query_messages\<close> are the rows the two statements yield once their
  parameters are accepted; getChats and getMessages return them, or throw.
\<close>

definition query_chats :: "int \<Rightarrow> int \<Rightarrow> database \<Rightarrow> chat list" where
  "query_chats l off db =
     map chat_of_row (limit_offset l off (order_by_desc cr_lastMessageAt (chats_tbl db)))"

definition getChats :: "int \<Rightarrow> int \<Rightarrow> database \<Rightarrow> db_error + chat list" where
  "getChats l off db = (if int64 l \<and> int64 off then Inr (query_chats l off db) else Inl Mismatch)"

definition query_messages :: "string \<Rightarrow> int \<Rightarrow> int \<Rightarrow> database \<Rightarrow> message list" where
  "query_messages cid l off db =
     map message_of_row
       (limit_offset l off
         (order_by_desc mr_ts (filter (\<lambda>m. mr_chatId m = cid) (messages_tbl db))))"

definition getMessages :: "string \<Rightarrow> int \<Rightarrow> int \<Rightarrow> database \<Rightarrow> db_error + message list" where
  "getMessages cid l off db =
     (if int64 l \<and> int64 off then Inr (query_messages cid l off db) else Inl Mismatch)"

text \<open>
  The operator LIKE of SQLite, with no escape character. It reads the pattern and the
  text as C strings, each up to its first zero byte, and character by character of
  UTF-8: \<open>%\<close> stands for any run of characters, \<open>_\<close> for any one character, and every
  other character for itself, the letters A to Z and a to z without regard to case. A
  pattern of more than 50000 bytes, the zero byte and what follows it counted, makes the
  operator throw when it is applied to a row.
\<close>

definition ascii_lower :: "char \<Rightarrow> char" where
  "ascii_lower c =
     (case map_of (zip ''ABCDEFGHIJKLMNOPQRSTUVWXYZ'' ''abcdefghijklmnopqrstuvwxyz'') c of
        Some l \<Rightarrow> l
      | None \<Rightarrow> c)"

definition c_string :: "string \<Rightarrow> string" where
  "c_string s = takeWhile (\<lambda>c. c \<noteq> CHR 0x00) s"

definition utf8_continuation :: "char \<Rightarrow> bool" where
  "utf8_continuation c = ((0x80 :: nat) \<le> of_char c \<and> (of_char c :: nat) < 0xC0)"

text \<open>What is left of a text after the character that starts with the byte \<open>c\<close>.\<close>

definition utf8_tail :: "char \<Rightarrow> string \<Rightarrow> string" where
  "utf8_tail c cs = (if (0xC0 :: nat) \<le> of_char c then dropWhile utf8_continuation cs else cs)"

function like :: "string \<Rightarrow> string \<Rightarrow> bool" where
  "like [] [] = True"
| "like [] (c # cs) = False"
| "like (p # ps) [] = (p = CHR ''%'' \<and> like ps [])"
| "like (p # ps) (c # cs) =
     (if p = CHR ''%'' then like ps (c # cs) \<or> like (p # ps) (utf8_tail c cs)
      else if p = CHR ''_'' then like ps (utf8_tail c cs)
      else ascii_lower p = ascii_lower c \<and> like ps cs)"
  by pat_completeness auto
termination
proof -
  have shorter: "length (utf8_tail c cs) < Suc (length cs)" for c cs
    using length_dropWhile_le[of utf8_continuation cs] by (simp add: utf8_tail_def)
  show ?thesis
    by (relation "measure (\<lambda>(p, s). length p + length s)")
       (use shorter in \<open>auto simp: less_Suc_eq_le intro: trans_le_add2 le_SucI\<close>)
qed

definition max_like_pattern_length :: nat where
  "max_like_pattern_length = 50000"

text \<open>
  searchMessages binds the pattern \<^verbatim>\<open>`%${query}%`\<close> to
  \<^verbatim>\<open>WHERE chatId = ? AND body LIKE ? ORDER BY ts DESC LIMIT 50\<close>. The rows of the chat
  are found through the index on chatId, and LIKE is applied to each of them: with a
  pattern that is too long the statement throws as soon as the chat has a message.
\<close>

definition searchMessages :: "string \<Rightarrow> string \<Rightarrow> database \<Rightarrow> db_error + message list" where
  "searchMessages cid q db =
     (let pattern = ''%'' @ q @ ''%'';
          rows = filter (\<lambda>m. mr_chatId m = cid) (messages_tbl db)
      in if length pattern > max_like_pattern_length \<and> rows \<noteq> [] then Inl PatternTooComplex
         else Inr (map message_of_row
                (limit_offset 50 0
                  (order_by_desc mr_ts
                    (filter (\<lambda>m. like (c_string pattern) (c_string (mr_body m))) rows)))))"

subsection \<open>Seeding\<close>

text \<open>
  What seedData draws from outside: \<open>uuid n\<close> is the value of its \<open>n\<close>-th call of uuidv4
  (the 200 chat ids come first, then one id for each message), \<open>rnd_count i\<close> is
  \<^verbatim>\<open>Math.floor(Math.random() * 50)\<close> for the chat of index \<open>i\<close>, and \<open>rnd_sender\<close>,
  \<open>rnd_body\<close> and \<open>rnd_age\<close> are the draws for the message of running number \<open>g\<close>: the
  two indices and the age \<^verbatim>\<open>Math.random() * 7 * 24 * 60 * 60 * 1000\<close>, a number of
  milliseconds with its fraction.
\<close>

record seed_env =
  uuid :: "nat \<Rightarrow> string"
  rnd_count :: "nat \<Rightarrow> nat"
  rnd_sender :: "nat \<Rightarrow> nat"
  rnd_body :: "nat \<Rightarrow> nat"
  rnd_age :: "nat \<Rightarrow> real"

definition seed_senders :: "string list" where
  "seed_senders = [''Alice'', ''Bob'', ''Charlie'', ''Diana'', ''Eve'']"

definition seed_bodies :: "string list" where
  "seed_bodies =
     [''Hey, how are you?'', ''Just finished the project'', ''Let's sync up tomorrow'',
      ''Did you see the update?'', ''Looks good to me'', ''I agree completely'',
      ''When are you free?'', ''Can we schedule a meeting?'', ''Thanks for the help'',
      ''No problem, happy to assist'', ''See you at 3pm'', ''Perfect, see you then'',
      ''What do you think?'', ''Sounds like a plan'', ''Let me know ASAP'']"

fun decimal :: "nat \<Rightarrow> string" where
  "decimal n =
     (if n < 10 then [''0123456789'' ! n] else decimal (n div 10) @ [''0123456789'' ! (n mod 10)])"

definition seed_chat :: "seed_env \<Rightarrow> int \<Rightarrow> nat \<Rightarrow> chat_row" where
  "seed_chat env now i =
     \<lparr>cr_id = uuid env i, cr_title = ''Chat '' @ decimal (i + 1), cr_lastMessageAt = of_int now,
      cr_unreadCount = 0, cr_createdAt = now\<rparr>"

definition seed_message :: "seed_env \<Rightarrow> int \<Rightarrow> string \<Rightarrow> nat \<Rightarrow> message_row" where
  "seed_message env now cid g =
     \<lparr>mr_id = uuid env (200 + g), mr_chatId = cid, mr_ts = of_int now - rnd_age env g,
      mr_sender = seed_senders ! (rnd_sender env g mod length seed_senders),
      mr_body = seed_bodies ! (rnd_body env g mod length seed_bodies),
      mr_createdAt = now\<rparr>"

definition messageCountPerChat :: "seed_env \<Rightarrow> nat \<Rightarrow> nat" where
  "messageCountPerChat env i = rnd_count env i mod 50 + 100"

text \<open>The inner loop: \<open>n\<close> messages for the chat \<open>cid\<close>, from the running number \<open>g\<close> on.\<close>

fun insert_messages :: "seed_env \<Rightarrow> int \<Rightarrow> string \<Rightarrow> nat \<Rightarrow> nat \<Rightarrow> stmt" where
  "insert_messages env now cid 0 g = (\<lambda>db. (None, db))"
| "insert_messages env now cid (Suc n) g =
     and_then (insertMessage_run (seed_message env now cid g))
              (insert_messages env now cid n (Suc g))"

text \<open>The outer loop over the generated chats, given by their indices.\<close>

fun seed_chats :: "seed_env \<Rightarrow> int \<Rightarrow> nat list \<Rightarrow> nat \<Rightarrow> stmt" where
  "seed_chats env now [] g = (\<lambda>db. (None, db))"
| "seed_chats env now (i # is) g =
     and_then (insertChat_run (seed_chat env now i))
    (and_then (insert_messages env now (uuid env i) (messageCountPerChat env i) g)
              (seed_chats env now is (g + messageCountPerChat env i)))"

text \<open>
  \<^verbatim>\<open>SELECT MAX(ts) as ts FROM messages WHERE chatId = ?\<close>, and the update guarded by
  \<^verbatim>\<open>if (lastMessage?.ts)\<close>, which a missing and a zero timestamp both fail.
\<close>

definition getLastMessage :: "string \<Rightarrow> database \<Rightarrow> real option" where
  "getLastMessage cid db =
     (case filter (\<lambda>m. mr_chatId m = cid) (messages_tbl db) of
        [] \<Rightarrow> None
      | m # ms \<Rightarrow> Some (fold max (map mr_ts ms) (mr_ts m)))"

definition set_lastMessageAt :: "real \<Rightarrow> string \<Rightarrow> chat_row \<Rightarrow> chat_row" where
  "set_lastMessageAt t cid c = (if cr_id c = cid then c\<lparr>cr_lastMessageAt := t\<rparr> else c)"

definition refresh_chat :: "string \<Rightarrow> stmt" where
  "refresh_chat cid = (\<lambda>db.
     case getLastMessage cid db of
       None \<Rightarrow> (None, db)
     | Some t \<Rightarrow>
         if t \<noteq> 0 then (None, db\<lparr>chats_tbl := map (set_lastMessageAt t cid) (chats_tbl db)\<rparr>)
         else (None, db))"

fun refresh_chats :: "string list \<Rightarrow> stmt" where
  "refresh_chats [] = (\<lambda>db. (None, db))"
| "refresh_chats (cid # cids) = and_then (refresh_chat cid) (refresh_chats cids)"

definition seedData :: "seed_env \<Rightarrow> int \<Rightarrow> stmt" where
  "seedData env now =
     transaction
       (and_then (seed_chats env now [0..<200] 0)
                 (refresh_chats (map (uuid env) [0..<200])))"

text \<open>
  initializeDatabase creates the tables if they are missing, which changes nothing here,
  and seeds when the count of chats is zero.
\<close>

definition initializeDatabase :: "seed_env \<Rightarrow> int \<Rightarrow> stmt" where
  "initializeDatabase env now = (\<lambda>db.
     if length (chats_tbl db) = 0 then seedData env now db else (None, db))"

text \<open>
  The handler of the channel \<^verbatim>\<open>db:seedData\<close> in main.ts, which the preload script
  exposes as \<^verbatim>\<open>window.electronAPI.seedData\<close>.
\<close>

definition ipc_seedData :: "seed_env \<Rightarrow> int \<Rightarrow> stmt" where
  "ipc_seedData env now = seedData env now"

section \<open>The message emitter: server/websocket.ts\<close>

datatype ready_state = CONNECTING | OPEN | CLOSING | CLOSED

text \<open>The event \<^verbatim>\<open>{type: 'newMessage', chatId, messageId, ts, sender, body}\<close>.\<close>

record new_message_event =
  ev_chatId :: string
  ev_messageId :: string
  ev_ts :: real
  ev_sender :: string
  ev_body :: string

text \<open>
  What one tick of the emitter draws from outside: the row \<^verbatim>\<open>ORDER BY RANDOM() LIMIT 1\<close>
  picks, the two random indices, the emitter's own calls of Date.now and uuidv4, and the
  calls of uuidv4 and Date.now that addMessage makes afterwards.
\<close>

record tick_env =
  pick_chat :: nat
  pick_sender :: nat
  pick_body :: nat
  tick_now :: int
  tick_uuid :: string
  add_uuid :: string
  add_now :: int

definition messageTexts :: "string list" where
  "messageTexts =
     [''Hey, how are you?'', ''Just finished the project'', ''Let's sync up tomorrow'',
      ''Did you see the update?'', ''Looks good to me'', ''I agree completely'',
      ''When are you free?'', ''Can we schedule a meeting?'', ''Thanks for the help'',
      ''No problem, happy to assist'']"

definition broadcast :: "'e \<Rightarrow> ready_state list \<Rightarrow> (nat \<times> 'e) list" where
  "broadcast e clients = map (\<lambda>i. (i, e)) (filter (\<lambda>i. clients ! i = OPEN) [0..<length clients])"

text \<open>
  One run of the interval callback of startMessageEmitter. It returns the frames sent, each
  with the index of the client it went to, and the store afterwards. An exception of
  addMessage is caught and logged, and nothing is sent.
\<close>

definition emitter_tick ::
  "tick_env \<Rightarrow> bool \<Rightarrow> ready_state list \<Rightarrow> database \<Rightarrow> (nat \<times> new_message_event) list \<times> database"
where
  "emitter_tick env isEmittingMessages clients db =
     (if \<not> isEmittingMessages then ([], db)
      else if length (chats_tbl db) = 0 then ([], db)
      else
        let cid = cr_id (chats_tbl db ! (pick_chat env mod length (chats_tbl db)));
            sndr = seed_senders ! (pick_sender env mod length seed_senders);
            bdy = messageTexts ! (pick_body env mod length messageTexts);
            t = real_of_int (tick_now env);
            messageId = tick_uuid env
        in case addMessage NoCrash (add_uuid env) (add_now env) cid sndr bdy t db of
             (Some e, d) \<Rightarrow> ([], d)
           | (None, d) \<Rightarrow>
               (broadcast \<lparr>ev_chatId = cid, ev_messageId = messageId, ev_ts = t,
                           ev_sender = sndr, ev_body = bdy\<rparr> clients, d))"

section \<open>The client's state: store/index.ts\<close>

datatype connection_state = Connected | Reconnecting | Offline

record connection_slice =
  conn_state :: connection_state
  reconnectAttempt :: nat
  backoffDelay :: nat

record chats_slice =
  chats_items :: "chat list"
  selectedId :: "string option"
  chats_isLoading :: bool
  chats_offset :: nat
  chats_hasMore :: bool

record messages_slice =
  messages_items :: "message list"
  messages_isLoading :: bool
  messages_offset :: nat
  messages_hasMore :: bool

record search_slice =
  search_query :: string
  search_results :: "message list"
  isSearching :: bool

record app_state =
  connection :: connection_slice
  chats :: chats_slice
  messages :: messages_slice
  search :: search_slice

definition initialState :: app_state where
  "initialState =
     \<lparr>connection = \<lparr>conn_state = Offline, reconnectAttempt = 0, backoffDelay = 1000\<rparr>,
      chats = \<lparr>chats_items = [], selectedId = None, chats_isLoading = False, chats_offset = 0,
               chats_hasMore = True\<rparr>,
      messages = \<lparr>messages_items = [], messages_isLoading = False, messages_offset = 0,
                  messages_hasMore = True\<rparr>,
      search = \<lparr>search_query = [], search_results = [], isSearching = False\<rparr>\<rparr>"

subsection \<open>connectionSlice\<close>

definition setConnectionState :: "connection_state \<Rightarrow> connection_slice \<Rightarrow> connection_slice" where
  "setConnectionState p s =
     (let s1 = s\<lparr>conn_state := p\<rparr>
      in if p = Connected then s1\<lparr>reconnectAttempt := 0, backoffDelay := 1000\<rparr> else s1)"

text \<open>
  The counter is raised first, so the exponent \<open>reconnectAttempt - 1\<close> is never negative.
\<close>

definition incrementReconnectAttempt :: "connection_slice \<Rightarrow> connection_slice" where
  "incrementReconnectAttempt s =
     (let s1 = s\<lparr>reconnectAttempt := reconnectAttempt s + 1\<rparr>
      in s1\<lparr>backoffDelay := min (1000 * 2 ^ (reconnectAttempt s1 - 1)) 30000\<rparr>)"

subsection \<open>chatsSlice\<close>

text \<open>Array.find followed by an assignment to the element found: the first match changes.\<close>

fun update_first :: "('a \<Rightarrow> bool) \<Rightarrow> ('a \<Rightarrow> 'a) \<Rightarrow> 'a list \<Rightarrow> 'a list" where
  "update_first P f [] = []"
| "update_first P f (x # xs) = (if P x then f x # xs else x # update_first P f xs)"

definition setChats :: "chat list \<Rightarrow> chats_slice \<Rightarrow> chats_slice" where
  "setChats p s = s\<lparr>chats_items := p, chats_isLoading := False\<rparr>"

definition appendChats :: "chat list \<Rightarrow> chats_slice \<Rightarrow> chats_slice" where
  "appendChats p s =
     s\<lparr>chats_items := chats_items s @ p, chats_offset := chats_offset s + length p,
       chats_hasMore := (length p \<ge> 50), chats_isLoading := False\<rparr>"

definition selectChat :: "string \<Rightarrow> chats_slice \<Rightarrow> chats_slice" where
  "selectChat p s = s\<lparr>selectedId := Some p\<rparr>"

definition updateChatUnreadCount :: "string \<Rightarrow> int \<Rightarrow> chats_slice \<Rightarrow> chats_slice" where
  "updateChatUnreadCount cid n s =
     s\<lparr>chats_items := update_first (\<lambda>c. chat_id c = cid) (\<lambda>c. c\<lparr>unreadCount := n\<rparr>) (chats_items s)\<rparr>"

text \<open>
  The comparator \<^verbatim>\<open>(a, b) => b.lastMessageAt - a.lastMessageAt\<close> of a stable sort; the
  list is sorted only when the chat is found.
\<close>

definition updateChatLastMessage :: "string \<Rightarrow> real \<Rightarrow> chats_slice \<Rightarrow> chats_slice" where
  "updateChatLastMessage cid t s =
     (case find (\<lambda>c. chat_id c = cid) (chats_items s) of
        None \<Rightarrow> s
      | Some c \<Rightarrow>
          s\<lparr>chats_items :=
              order_by_desc lastMessageAt
                (update_first (\<lambda>c. chat_id c = cid) (\<lambda>c. c\<lparr>lastMessageAt := t\<rparr>) (chats_items s))\<rparr>)"

definition setChatsLoading :: "bool \<Rightarrow> chats_slice \<Rightarrow> chats_slice" where
  "setChatsLoading p s = s\<lparr>chats_isLoading := p\<rparr>"

subsection \<open>messagesSlice and searchSlice\<close>

definition setMessages :: "message list \<Rightarrow> messages_slice \<Rightarrow> messages_slice" where
  "setMessages p s = s\<lparr>messages_items := rev p, messages_offset := 0, messages_isLoading := False\<rparr>"

definition prependMessages :: "message list \<Rightarrow> messages_slice \<Rightarrow> messages_slice" where
  "prependMessages p s =
     s\<lparr>messages_items := rev p @ messages_items s, messages_offset := messages_offset s + length p,
       messages_hasMore := (length p \<ge> 50), messages_isLoading := False\<rparr>"

definition appendMessage :: "message \<Rightarrow> messages_slice \<Rightarrow> messages_slice" where
  "appendMessage p s = s\<lparr>messages_items := messages_items s @ [p]\<rparr>"

definition setMessagesLoading :: "bool \<Rightarrow> messages_slice \<Rightarrow> messages_slice" where
  "setMessagesLoading p s = s\<lparr>messages_isLoading := p\<rparr>"

definition clearMessages :: "messages_slice \<Rightarrow> messages_slice" where
  "clearMessages s = s\<lparr>messages_items := [], messages_offset := 0, messages_hasMore := True\<rparr>"

definition setSearchQuery :: "string \<Rightarrow> search_slice \<Rightarrow> search_slice" where
  "setSearchQuery p s = s\<lparr>search_query := p\<rparr>"

definition setSearchResults :: "message list \<Rightarrow> search_slice \<Rightarrow> search_slice" where
  "setSearchResults p s = s\<lparr>search_results := p, isSearching := False\<rparr>"

definition setSearching :: "bool \<Rightarrow> search_slice \<Rightarrow> search_slice" where
  "setSearching p s = s\<lparr>isSearching := p\<rparr>"

definition clearSearch :: "search_slice \<Rightarrow> search_slice" where
  "clearSearch s = s\<lparr>search_query := [], search_results := [], isSearching := False\<rparr>"

subsection \<open>The store and its actions\<close>

datatype action =
    SetConnectionState connection_state
  | IncrementReconnectAttempt
  | SetChats "chat list"
  | AppendChats "chat list"
  | SelectChat string
  | UpdateChatUnreadCount string int
  | UpdateChatLastMessage string real
  | SetChatsLoading bool
  | SetMessages "message list"
  | PrependMessages "message list"
  | AppendMessage message
  | SetMessagesLoading bool
  | ClearMessages
  | SetSearchQuery string
  | SetSearchResults "message list"
  | SetSearching bool
  | ClearSearch

fun dispatch :: "action \<Rightarrow> app_state \<Rightarrow> app_state" where
  "dispatch (SetConnectionState p) st = st\<lparr>connection := setConnectionState p (connection st)\<rparr>"
| "dispatch IncrementReconnectAttempt st = st\<lparr>connection := incrementReconnectAttempt (connection st)\<rparr>"
| "dispatch (SetChats p) st = st\<lparr>chats := setChats p (chats st)\<rparr>"
| "dispatch (AppendChats p) st = st\<lparr>chats := appendChats p (chats st)\<rparr>"
| "dispatch (SelectChat p) st = st\<lparr>chats := selectChat p (chats st)\<rparr>"
| "dispatch (UpdateChatUnreadCount cid n) st = st\<lparr>chats := updateChatUnreadCount cid n (chats st)\<rparr>"
| "dispatch (UpdateChatLastMessage cid t) st = st\<lparr>chats := updateChatLastMessage cid t (chats st)\<rparr>"
| "dispatch (SetChatsLoading p) st = st\<lparr>chats := setChatsLoading p (chats st)\<rparr>"
| "dispatch (SetMessages p) st = st\<lparr>messages := setMessages p (messages st)\<rparr>"
| "dispatch (PrependMessages p) st = st\<lparr>messages := prependMessages p (messages st)\<rparr>"
| "dispatch (AppendMessage p) st = st\<lparr>messages := appendMessage p (messages st)\<rparr>"
| "dispatch (SetMessagesLoading p) st = st\<lparr>messages := setMessagesLoading p (messages st)\<rparr>"
| "dispatch ClearMessages st = st\<lparr>messages := clearMessages (messages st)\<rparr>"
| "dispatch (SetSearchQuery p) st = st\<lparr>search := setSearchQuery p (search st)\<rparr>"
| "dispatch (SetSearchResults p) st = st\<lparr>search := setSearchResults p (search st)\<rparr>"
| "dispatch (SetSearching p) st = st\<lparr>search := setSearching p (search st)\<rparr>"
| "dispatch ClearSearch st = st\<lparr>search := clearSearch (search st)\<rparr>"

section \<open>The connection: hooks/useWebSocket.ts\<close>

text \<open>
  The class WebSocketClient and what it runs in. The client's fields are those of the
  class; \<open>ws\<close> and the two timeouts hold the number of a socket or of a timer, and \<open>store\<close>
  says whether the field of that name is set (the store itself is \<open>app\<close> below).

  The world around the client holds every socket created so far with its readyState, every
  timer set so far (\<open>Some\<close> while it is pending, \<open>None\<close> once it has fired or was cleared),
  the frames the client has sent, and whether the constructor of WebSocket throws.
\<close>

datatype timer_kind = HeartbeatTimer | ReconnectTimer

record ws_client =
  ws :: "nat option"
  client_reconnectAttempt :: nat
  heartbeatTimeout :: "nat option"
  reconnectTimeout :: "nat option"
  store :: bool
  maxReconnectAttempts :: nat

datatype frame = Ping

record world =
  client :: ws_client
  app :: app_state
  sockets :: "ready_state list"
  timers :: "(timer_kind \<times> nat) option list"
  sent :: "(nat \<times> frame) list"
  ctor_throws :: bool

definition new_client :: ws_client where
  "new_client =
     \<lparr>ws = None, client_reconnectAttempt = 0, heartbeatTimeout = None, reconnectTimeout = None,
      store = False, maxReconnectAttempts = 10\<rparr>"

definition initial_world :: world where
  "initial_world =
     \<lparr>client = new_client, app = initialState, sockets = [], timers = [], sent = [],
      ctor_throws = False\<rparr>"

text \<open>What JSON.parse makes of a frame received, as far as the handler tells frames apart.\<close>

datatype ws_data = BadJson | ConnectedData | NewMessageData message | OtherData

definition store_dispatch :: "action \<Rightarrow> world \<Rightarrow> world" where
  "store_dispatch a w = (if store (client w) then w\<lparr>app := dispatch a (app w)\<rparr> else w)"

definition setTimeout :: "timer_kind \<Rightarrow> nat \<Rightarrow> world \<Rightarrow> nat \<times> world" where
  "setTimeout k delay w = (length (timers w), w\<lparr>timers := timers w @ [Some (k, delay)]\<rparr>)"

definition clearTimeout :: "nat \<Rightarrow> world \<Rightarrow> world" where
  "clearTimeout h w = w\<lparr>timers := (timers w)[h := None]\<rparr>"

definition clearHeartbeat :: "world \<Rightarrow> world" where
  "clearHeartbeat w =
     (case heartbeatTimeout (client w) of
        None \<Rightarrow> w
      | Some h \<Rightarrow> (clearTimeout h w)\<lparr>client := (client w)\<lparr>heartbeatTimeout := None\<rparr>\<rparr>)"

definition resetHeartbeat :: "world \<Rightarrow> world" where
  "resetHeartbeat w =
     (let (h, w1) = setTimeout HeartbeatTimer 10000 (clearHeartbeat w)
      in w1\<lparr>client := (client w1)\<lparr>heartbeatTimeout := Some h\<rparr>\<rparr>)"

text \<open>The callback of the heartbeat timer: a ping when the current socket is open.\<close>

definition heartbeat_callback :: "world \<Rightarrow> world" where
  "heartbeat_callback w =
     (case ws (client w) of
        None \<Rightarrow> w
      | Some sid \<Rightarrow> if sockets w ! sid = OPEN then w\<lparr>sent := sent w @ [(sid, Ping)]\<rparr> else w)"

definition scheduleReconnect :: "world \<Rightarrow> world" where
  "scheduleReconnect w =
     (if client_reconnectAttempt (client w) \<ge> maxReconnectAttempts (client w) then w
      else
        let w1 = w\<lparr>client := (client w)\<lparr>client_reconnectAttempt := client_reconnectAttempt (client w) + 1\<rparr>\<rparr>;
            w2 = store_dispatch IncrementReconnectAttempt w1;
            delay = min (1000 * 2 ^ (client_reconnectAttempt (client w2) - 1)) 30000;
            (h, w3) = setTimeout ReconnectTimer delay w2
        in w3\<lparr>client := (client w3)\<lparr>reconnectTimeout := Some h\<rparr>\<rparr>)"

text \<open>
  attemptConnection makes a socket and hangs the four handlers on it; the handlers are
  the functions \<open>onopen\<close>, \<open>onmessage\<close>, \<open>onerror\<close> and \<open>onclose\<close> below, and the
  browser calls them for that socket whatever \<open>ws\<close> holds by then.
\<close>

definition attemptConnection :: "world \<Rightarrow> world" where
  "attemptConnection w =
     (if ctor_throws w then scheduleReconnect w
      else w\<lparr>sockets := sockets w @ [CONNECTING],
             client := (client w)\<lparr>ws := Some (length (sockets w))\<rparr>\<rparr>)"

definition connect :: "world \<Rightarrow> world" where
  "connect w = attemptConnection (w\<lparr>client := (client w)\<lparr>store := True\<rparr>\<rparr>)"

definition onopen :: "world \<Rightarrow> world" where
  "onopen w = resetHeartbeat (store_dispatch (SetConnectionState Connected) w)"

text \<open>
  In \<^verbatim>\<open>find(...)?.unreadCount || 0 + 1\<close> the sum binds first: the value is the count
  found when that is not zero, and \<open>0 + 1\<close> otherwise. The state read is the one from
  before the first dispatch.
\<close>

definition next_unreadCount :: "string \<Rightarrow> app_state \<Rightarrow> int" where
  "next_unreadCount cid st =
     (case find (\<lambda>c. chat_id c = cid) (chats_items (chats st)) of
        None \<Rightarrow> 0 + 1
      | Some c \<Rightarrow> if unreadCount c \<noteq> 0 then unreadCount c else 0 + 1)"

definition onmessage :: "ws_data \<Rightarrow> world \<Rightarrow> world" where
  "onmessage data w =
     (case data of
        BadJson \<Rightarrow> w
      | ConnectedData \<Rightarrow> w
      | NewMessageData m \<Rightarrow>
          if store (client w) then
            let st = app w;
                w1 = store_dispatch (UpdateChatLastMessage (chatId m) (ts m)) w;
                w2 = (if selectedId (chats st) = Some (chatId m)
                      then store_dispatch (AppendMessage m) w1
                      else store_dispatch
                             (UpdateChatUnreadCount (chatId m) (next_unreadCount (chatId m) st)) w1)
            in resetHeartbeat w2
          else resetHeartbeat w
      | OtherData \<Rightarrow> resetHeartbeat w)"

definition onerror :: "world \<Rightarrow> world" where
  "onerror w = store_dispatch (SetConnectionState Offline) w"

definition onclose :: "world \<Rightarrow> world" where
  "onclose w =
     scheduleReconnect (store_dispatch (SetConnectionState Reconnecting) (clearHeartbeat w))"

text \<open>The callback of the reconnect timer.\<close>

definition reconnect_callback :: "world \<Rightarrow> world" where
  "reconnect_callback w =
     attemptConnection
       (w\<lparr>client := (client w)\<lparr>client_reconnectAttempt :=
            (if store (client w) then reconnectAttempt (connection (app w)) else 0)\<rparr>\<rparr>)"

text \<open>\<^verbatim>\<open>ws.close()\<close>: a socket that is not closed yet starts closing.\<close>

definition socket_close :: "nat \<Rightarrow> world \<Rightarrow> world" where
  "socket_close sid w =
     (if sid < length (sockets w) \<and> sockets w ! sid \<noteq> CLOSED
      then w\<lparr>sockets := (sockets w)[sid := CLOSING]\<rparr> else w)"

definition disconnect :: "world \<Rightarrow> world" where
  "disconnect w =
     (let w1 = clearHeartbeat w;
          w2 = (case reconnectTimeout (client w1) of None \<Rightarrow> w1 | Some h \<Rightarrow> clearTimeout h w1)
      in case ws (client w2) of
           None \<Rightarrow> w2
         | Some sid \<Rightarrow> (socket_close sid w2)\<lparr>client := (client w2)\<lparr>ws := None\<rparr>\<rparr>)"

definition simulateConnectionDrop :: "world \<Rightarrow> world" where
  "simulateConnectionDrop w =
     (case ws (client w) of None \<Rightarrow> w | Some sid \<Rightarrow> socket_close sid w)"

definition isConnected :: "world \<Rightarrow> bool" where
  "isConnected w = (case ws (client w) of None \<Rightarrow> False | Some sid \<Rightarrow> sockets w ! sid = OPEN)"

text \<open>
  What can happen to the client: a call of its public methods, an event of one of its
  sockets, or a timer running out. An event of a socket is delivered only in a readyState
  that allows it, and a timer fires only while it is pending; otherwise nothing happens.
\<close>

datatype event =
    CallConnect
  | CallDisconnect
  | CallSimulateConnectionDrop
  | SocketOpened nat
  | SocketMessage nat ws_data
  | SocketError nat
  | SocketClosed nat
  | TimerFired nat

fun step :: "event \<Rightarrow> world \<Rightarrow> world" where
  "step CallConnect w = connect w"
| "step CallDisconnect w = disconnect w"
| "step CallSimulateConnectionDrop w = simulateConnectionDrop w"
| "step (SocketOpened sid) w =
     (if sid < length (sockets w) \<and> sockets w ! sid = CONNECTING
      then onopen (w\<lparr>sockets := (sockets w)[sid := OPEN]\<rparr>) else w)"
| "step (SocketMessage sid data) w =
     (if sid < length (sockets w) \<and> sockets w ! sid = OPEN then onmessage data w else w)"
| "step (SocketError sid) w =
     (if sid < length (sockets w) \<and> sockets w ! sid \<noteq> CLOSED then onerror w else w)"
| "step (SocketClosed sid) w =
     (if sid < length (sockets w) \<and> sockets w ! sid \<noteq> CLOSED
      then onclose (w\<lparr>sockets := (sockets w)[sid := CLOSED]\<rparr>) else w)"
| "step (TimerFired h) w =
     (if h < length (timers w) then
        (case timers w ! h of
           None \<Rightarrow> w
         | Some (HeartbeatTimer, d) \<Rightarrow> heartbeat_callback (w\<lparr>timers := (timers w)[h := None]\<rparr>)
         | Some (ReconnectTimer, d) \<Rightarrow> reconnect_callback (w\<lparr>timers := (timers w)[h := None]\<rparr>))
      else w)"

definition run :: "event list \<Rightarrow> world \<Rightarrow> world" where
  "run evs w = fold step evs w"

text \<open>The timers that are pending, with their delays.\<close>

definition pending :: "timer_kind \<Rightarrow> world \<Rightarrow> nat list" where
  "pending k w = map snd (filter (\<lambda>t. fst t = k) (List.map_filter id (timers w)))"

section \<open>The views: App, ChatList and MessageView\<close>







text \<open>loadChats of ChatList and handleLoadOlderMessages of MessageView.\<close>

definition loadChats :: "bool \<Rightarrow> database \<Rightarrow> app_state \<Rightarrow> app_state" where
  "loadChats ipc_fails db st =
     (if chats_isLoading (chats st) \<or> \<not> chats_hasMore (chats st) then st
      else
        let st1 = dispatch (SetChatsLoading True) st
        in case (if ipc_fails then Inl Crash
                 else getChats 50 (int (chats_offset (chats st))) db) of
             Inl e \<Rightarrow> dispatch (SetChatsLoading False) st1
           | Inr page \<Rightarrow>
               if chats_offset (chats st) = 0 then dispatch (SetChats page) st1
               else dispatch (AppendChats page) st1)"

definition handleLoadOlderMessages :: "bool \<Rightarrow> database \<Rightarrow> app_state \<Rightarrow> app_state" where
  "handleLoadOlderMessages ipc_fails db st =
     (case selectedId (chats st) of
        None \<Rightarrow> st
      | Some selectedChatId \<Rightarrow>
          if messages_isLoading (messages st) \<or> \<not> messages_hasMore (messages st) then st
          else
            let st1 = dispatch (SetMessagesLoading True) st
            in case (if ipc_fails then Inl Crash
                     else getMessages selectedChatId 50 (int (messages_offset (messages st))) db) of
                 Inl e \<Rightarrow> dispatch (SetMessagesLoading False) st1
               | Inr page \<Rightarrow> dispatch (PrependMessages page) st1)"

text \<open>
  What a launch of the program does to the store. The main process awaits
  initializeDatabase, and exits if that throws; then the window is made, and the effect
  of App calls \<^verbatim>\<open>window.electronAPI.seedData()\<close>, whose exception it catches and
  drops. The two seedings make their own draws.
\<close>

definition launch :: "seed_env \<Rightarrow> int \<Rightarrow> seed_env \<Rightarrow> int \<Rightarrow> database \<Rightarrow> database" where
  "launch env1 now1 env2 now2 db =
     (case initializeDatabase env1 now1 db of
        (Some e, d) \<Rightarrow> d
      | (None, d) \<Rightarrow> snd (ipc_seedData env2 now2 d))"

section \<open>Scenarios\<close>

text \<open>
  \<open>failed_attempts n\<close> is the life of a client whose first \<open>n\<close> attempts all fail: connect
  is called, every socket reports an error and closes, and every reconnect timer runs out
  and starts the next attempt. \<open>failed_world n\<close> is the world this leaves.
\<close>

fun failed_attempts :: "nat \<Rightarrow> event list" where
  "failed_attempts 0 = []"
| "failed_attempts (Suc n) =
     failed_attempts n @ (case n of 0 \<Rightarrow> [CallConnect] | Suc k \<Rightarrow> [TimerFired k])
       @ [SocketError n, SocketClosed n]"

definition failed_world :: "nat \<Rightarrow> world" where
  "failed_world n =
     \<lparr>client = \<lparr>ws = Some (n - 1), client_reconnectAttempt = n, heartbeatTimeout = None,
                reconnectTimeout = Some (n - 1), store = True, maxReconnectAttempts = 10\<rparr>,
      app = initialState\<lparr>connection :=
              \<lparr>conn_state = Reconnecting, reconnectAttempt = n,
               backoffDelay = min (1000 * 2 ^ (n - 1)) 30000\<rparr>\<rparr>,
      sockets = replicate n CLOSED,
      timers = replicate (n - 1) None @ [Some (ReconnectTimer, min (1000 * 2 ^ (n - 1)) 30000)],
      sent = [], ctor_throws = False\<rparr>"

text \<open>
  A client whose store already shows a list of chats, one chat with a given unread count,
  and a message for that chat.
\<close>

definition world_with_chats :: "chat list \<Rightarrow> world" where
  "world_with_chats cs = initial_world\<lparr>app := dispatch (SetChats cs) initialState\<rparr>"

definition sample_chat :: "int \<Rightarrow> chat" where
  "sample_chat n = \<lparr>chat_id = ''a'', title = ''Chat 1'', lastMessageAt = 100, unreadCount = n\<rparr>"

definition sample_message :: message where
  "sample_message =
     \<lparr>msg_id = ''m1'', chatId = ''a'', ts = 200, sender = ''Alice'', body = ''hi''\<rparr>"

text \<open>A store with one chat, last written to at time 100, and no message.\<close>

definition one_chat_db :: database where
  "one_chat_db =
     \<lparr>chats_tbl = [\<lparr>cr_id = ''c1'', cr_title = ''Chat 1'', cr_lastMessageAt = 100,
                    cr_unreadCount = 0, cr_createdAt = 0\<rparr>],
      messages_tbl = [], foreign_keys = True\<rparr>"

text \<open>
  The draws of one tick of the emitter: uuidv4 returns ''u1'' to the emitter and ''u2'' to
  addMessage.
\<close>

definition sample_tick :: tick_env where
  "sample_tick =
     \<lparr>pick_chat = 0, pick_sender = 0, pick_body = 0, tick_now = 200, tick_uuid = ''u1'',
      add_uuid = ''u2'', add_now = 201\<rparr>"






text \<open>
  A store in which two chats, and two messages of one chat, have the same timestamp and
  were inserted with the greater id first.
\<close>

definition tie_db :: database where
  "tie_db =
     \<lparr>chats_tbl =
        [\<lparr>cr_id = ''b'', cr_title = ''Chat 1'', cr_lastMessageAt = 100, cr_unreadCount = 0,
          cr_createdAt = 0\<rparr>,
         \<lparr>cr_id = ''a'', cr_title = ''Chat 2'', cr_lastMessageAt = 100, cr_unreadCount = 0,
          cr_createdAt = 0\<rparr>],
      messages_tbl =
        [\<lparr>mr_id = ''n'', mr_chatId = ''a'', mr_ts = 100, mr_sender = ''Alice'', mr_body = ''hi'',
          mr_createdAt = 100\<rparr>,
         \<lparr>mr_id = ''m'', mr_chatId = ''a'', mr_ts = 100, mr_sender = ''Bob'', mr_body = ''ho'',
          mr_createdAt = 100\<rparr>],
      foreign_keys = True\<rparr>"

text \<open>
  Draws for a seeding in which uuidv4 never repeats itself: its \<open>n\<close>-th value is a run of
  \<open>n + 1\<close> letters. And a store with nothing in it.
\<close>

definition sample_seed :: seed_env where
  "sample_seed =
     \<lparr>uuid = (\<lambda>n. replicate (Suc n) CHR ''u''), rnd_count = (\<lambda>i. 0), rnd_sender = (\<lambda>g. 0),
      rnd_body = (\<lambda>g. 0), rnd_age = (\<lambda>g. 0)\<rparr>"

definition empty_db :: database where
  "empty_db = \<lparr>chats_tbl = [], messages_tbl = [], foreign_keys = True\<rparr>"

text \<open>
  The draws of a later seeding, whose ids are runs of another letter, so that they are
  fresh in a store that the first one filled. And the stores after one call and after
  two calls of the exposed seeding, from the empty store.
\<close>

definition later_seed :: seed_env where
  "later_seed = sample_seed\<lparr>uuid := (\<lambda>n. replicate (Suc n) CHR ''v'')\<rparr>"

definition seeded_once :: database where
  "seeded_once = snd (ipc_seedData sample_seed 0 empty_db)"

definition seeded_twice :: database where
  "seeded_twice = snd (ipc_seedData later_seed 1 seeded_once)"

definition seed_titles :: "string list" where
  "seed_titles = map (\<lambda>i. ''Chat '' @ decimal (i + 1)) [0..<200]"

section \<open>Properties\<close>

subsection \<open>Reconnection and backoff\<close>

lemmas client_defs = connect_def attemptConnection_def onerror_def onclose_def
  scheduleReconnect_def store_dispatch_def clearHeartbeat_def setTimeout_def
  reconnect_callback_def incrementReconnectAttempt_def setConnectionState_def

lemma run_append: "run (evs @ evs') w = run evs' (run evs w)"
  by (simp add: run_def)

lemma first_failure: "run (failed_attempts (Suc 0)) initial_world = failed_world (Suc 0)"
  by (simp add: run_def failed_world_def initial_world_def new_client_def initialState_def
      client_defs Let_def)

lemma next_failure:
  assumes "1 \<le> n" "n < 10"
  shows "run [TimerFired (n - 1), SocketError n, SocketClosed n] (failed_world n)
         = failed_world (Suc n)"
proof -
  obtain k where k: "n = Suc k" using assms(1) by (cases n) auto
  show ?thesis using assms(2) unfolding k
    by (simp add: run_def failed_world_def initialState_def client_defs Let_def
        nth_append list_update_append replicate_append_same)
qed

lemma failed_attempts_world:
  "1 \<le> n \<Longrightarrow> n \<le> 10 \<Longrightarrow> run (failed_attempts n) initial_world = failed_world n"
proof (induction n)
  case 0
  then show ?case by simp
next
  case (Suc n)
  show ?case
  proof (cases n)
    case 0
    then show ?thesis using first_failure by simp
  next
    case (Suc k)
    have ih: "run (failed_attempts n) initial_world = failed_world n"
      using Suc Suc.IH Suc.prems by simp
    have nx: "run [TimerFired (n - 1), SocketError n, SocketClosed n] (failed_world n)
         = failed_world (Suc n)"
      using next_failure[of n] Suc Suc.prems by simp
    have "failed_attempts (Suc n)
          = failed_attempts n @ [TimerFired (n - 1), SocketError n, SocketClosed n]"
      using Suc by simp
    then show ?thesis by (simp only: run_append ih nx)
  qed
qed

lemma map_filter_replicate_None: "List.map_filter id (replicate k None @ [Some x]) = [x]"
  by (induction k) (simp_all add: map_filter_def)

lemma pending_failed_world:
  "pending ReconnectTimer (failed_world n) = [min (1000 * 2 ^ (n - 1)) 30000]"
  by (simp add: pending_def failed_world_def map_filter_replicate_None)

lemma backoffDelay_failed_world:
  "backoffDelay (connection (app (failed_world n))) = min (1000 * 2 ^ (n - 1)) 30000"
  by (simp add: failed_world_def)

lemma pending_snoc:
  "pending k (w\<lparr>timers := timers w @ [Some (k', d)]\<rparr>)
   = pending k w @ (if k' = k then [d] else [])"
  by (simp add: pending_def map_filter_def)

lemma pending_client_update [simp]: "pending k (w\<lparr>client := c\<rparr>) = pending k w"
  by (simp add: pending_def)

lemma pending_app_update [simp]: "pending k (w\<lparr>app := a\<rparr>) = pending k w"
  by (simp add: pending_def)

text \<open>
  What scheduleReconnect does in any world, whatever came before: below the maximum it
  sets one more timer, whose delay is the formula at the client's own counter, and the
  store's backoffDelay becomes the formula at the store's counter.
\<close>

lemma scheduleReconnect_delay:
  assumes "client_reconnectAttempt (client w) < maxReconnectAttempts (client w)"
  shows "pending ReconnectTimer (scheduleReconnect w)
         = pending ReconnectTimer w @ [min (1000 * 2 ^ client_reconnectAttempt (client w)) 30000]"
  using assms
  by (simp add: scheduleReconnect_def store_dispatch_def setTimeout_def pending_snoc Let_def)

lemma scheduleReconnect_reported:
  assumes "client_reconnectAttempt (client w) < maxReconnectAttempts (client w)"
    and "store (client w)"
  shows "backoffDelay (connection (app (scheduleReconnect w)))
         = min (1000 * 2 ^ reconnectAttempt (connection (app w))) 30000"
  using assms
  by (simp add: scheduleReconnect_def store_dispatch_def setTimeout_def
      incrementReconnectAttempt_def Let_def)

lemma attempts_1_to_10: "[1 ..< 11] = [1, 2, 3, 4, 5, 6, 7, 8, 9, 10 :: nat]"
  by (simp add: upt_conv_Cons)

text \<open>
  For an attempt number \<open>n\<close> from 1 to 10: whenever scheduleReconnect runs as the
  client's attempt \<open>n\<close> it sets one more timer, of \<open>min (1000 * 2 ^ (n - 1)) 30000\<close>
  milliseconds, and whenever it makes the store's reconnectAttempt \<open>n\<close> the backoffDelay
  reported is that same value. In the run of failed attempts of a client that has never
  been connected the two counters agree: the attempt \<open>n\<close> leaves exactly one reconnect
  timer pending, with this delay, and the store reports it; for the attempts 1 to 10 the
  delays are 1000, 2000, 4000, 8000, 16000 and then 30000 five times.
\<close>

lemma consecutive_failures_backoff:
  assumes "1 \<le> n" and "n \<le> 10"
  shows "(if client_reconnectAttempt (client w) = n - 1 \<and> maxReconnectAttempts (client w) = 10
          then pending ReconnectTimer (scheduleReconnect w)
                 = pending ReconnectTimer w @ [min (1000 * 2 ^ (n - 1)) 30000]
          else True)
       \<and> (if reconnectAttempt (connection (app w)) = n - 1 \<and> store (client w)
             \<and> client_reconnectAttempt (client w) < maxReconnectAttempts (client w)
          then backoffDelay (connection (app (scheduleReconnect w)))
                 = min (1000 * 2 ^ (n - 1)) 30000
          else True)
       \<and> pending ReconnectTimer (run (failed_attempts n) initial_world)
           = [min (1000 * 2 ^ (n - 1)) 30000]
       \<and> backoffDelay (connection (app (run (failed_attempts n) initial_world)))
           = min (1000 * 2 ^ (n - 1)) 30000
       \<and> map (\<lambda>k. min (1000 * 2 ^ (k - 1)) (30000 :: nat)) [1 ..< 11]
           = [1000, 2000, 4000, 8000, 16000, 30000, 30000, 30000, 30000, 30000]"
proof -
  have w: "run (failed_attempts n) initial_world = failed_world n"
    using assms by (rule failed_attempts_world)
  have s: "map (\<lambda>k. min (1000 * 2 ^ (k - 1)) (30000 :: nat)) [1 ..< 11]
           = [1000, 2000, 4000, 8000, 16000, 30000, 30000, 30000, 30000, 30000]"
    unfolding attempts_1_to_10 by simp
  have a: "pending ReconnectTimer (scheduleReconnect w)
             = pending ReconnectTimer w @ [min (1000 * 2 ^ (n - 1)) 30000]"
    if "client_reconnectAttempt (client w) = n - 1" "maxReconnectAttempts (client w) = 10"
    using that assms scheduleReconnect_delay[of w] by simp
  have b: "backoffDelay (connection (app (scheduleReconnect w))) = min (1000 * 2 ^ (n - 1)) 30000"
    if "reconnectAttempt (connection (app w)) = n - 1" "store (client w)"
      "client_reconnectAttempt (client w) < maxReconnectAttempts (client w)"
    using that scheduleReconnect_reported[of w] by simp
  show ?thesis
    unfolding w pending_failed_world backoffDelay_failed_world using s a b by simp
qed

lemma consecutive_failures_backoff_example:
  "pending ReconnectTimer (scheduleReconnect (failed_world 5)) = [16000, 30000]
   \<and> backoffDelay (connection (app (scheduleReconnect (failed_world 5)))) = 30000
   \<and> pending ReconnectTimer (run (failed_attempts 6) initial_world) = [30000]
   \<and> backoffDelay (connection (app (run (failed_attempts 6) initial_world))) = 30000"
  using consecutive_failures_backoff [of 6 "failed_world 5"]
  by (simp add: failed_world_def initialState_def pending_def map_filter_def)

text \<open>
  The store's counter goes back to 0 when a socket opens. The client's own counter does
  not: it is set from the store's only when a reconnect timer runs out, which is before
  the attempt that the timer starts.
\<close>

lemma recovered_on_second:
  "pending ReconnectTimer
     (run [CallConnect, SocketError 0, SocketClosed 0, TimerFired 0, SocketOpened 1,
           SocketClosed 1] initial_world) = [2000]
   \<and> connection (app
     (run [CallConnect, SocketError 0, SocketClosed 0, TimerFired 0, SocketOpened 1,
           SocketClosed 1] initial_world))
     = \<lparr>conn_state = Reconnecting, reconnectAttempt = 1, backoffDelay = 1000\<rparr>"
  by (simp add: run_def initial_world_def new_client_def initialState_def client_defs
      onopen_def resetHeartbeat_def clearTimeout_def pending_def map_filter_def Let_def)

lemma recovered_on_last:
  "pending ReconnectTimer
     (run [TimerFired 9, SocketOpened 10, SocketClosed 10] (failed_world 10)) = []
   \<and> connection (app (run [TimerFired 9, SocketOpened 10, SocketClosed 10] (failed_world 10)))
       = \<lparr>conn_state = Reconnecting, reconnectAttempt = 0, backoffDelay = 1000\<rparr>"
  by (simp add: failed_world_def run_def initialState_def client_defs
      onopen_def resetHeartbeat_def clearTimeout_def pending_def map_filter_def Let_def
      nth_append list_update_append)

text \<open>
  Claim C4, on the code. An attempt fails, the retry connects, and the connection drops:
  this is the first failed attempt since the client was connected, the store reports
  attempt 1 and a backoffDelay of 1000, and the client waits 2000 ms. And when it is the
  retry after the tenth failure that connects, and the connection drops, the store
  reports attempt 0 and no reconnect timer is set at all.
\<close>

theorem wait_differs_after_recovery:
  "pending ReconnectTimer
     (run [CallConnect, SocketError 0, SocketClosed 0, TimerFired 0, SocketOpened 1,
           SocketClosed 1] initial_world) = [2000]
   \<and> connection (app
     (run [CallConnect, SocketError 0, SocketClosed 0, TimerFired 0, SocketOpened 1,
           SocketClosed 1] initial_world))
     = \<lparr>conn_state = Reconnecting, reconnectAttempt = 1, backoffDelay = 1000\<rparr>
   \<and> pending ReconnectTimer
     (run (failed_attempts 10 @ [TimerFired 9, SocketOpened 10, SocketClosed 10]) initial_world)
     = []
   \<and> connection (app
     (run (failed_attempts 10 @ [TimerFired 9, SocketOpened 10, SocketClosed 10]) initial_world))
     = \<lparr>conn_state = Reconnecting, reconnectAttempt = 0, backoffDelay = 1000\<rparr>"
proof -
  have "run (failed_attempts 10) initial_world = failed_world 10"
    by (rule failed_attempts_world) simp_all
  then have "run (failed_attempts 10 @ [TimerFired 9, SocketOpened 10, SocketClosed 10]) initial_world
      = run [TimerFired 9, SocketOpened 10, SocketClosed 10] (failed_world 10)"
    by (simp only: run_append)
  then show ?thesis
    using recovered_on_last recovered_on_second by simp
qed

subsection \<open>Disconnecting, the heartbeat and the unread counter\<close>

lemmas machine_defs = run_def initial_world_def new_client_def initialState_def
  connect_def attemptConnection_def onopen_def onerror_def onclose_def onmessage_def
  scheduleReconnect_def store_dispatch_def clearHeartbeat_def resetHeartbeat_def
  setTimeout_def clearTimeout_def reconnect_callback_def heartbeat_callback_def
  disconnect_def socket_close_def isConnected_def
  incrementReconnectAttempt_def setConnectionState_def pending_def map_filter_def

text \<open>
  Claim C5, on the code. A client is connected and disconnect is called: the heartbeat
  timer is cleared and the socket starts closing, but the state shown stays Connected.
  When the socket then reports that it has closed, its onclose handler sets the state to
  Reconnecting and sets a reconnect timer of 1000 ms; when that timer runs out a new
  socket is made, and once it opens the client is connected again.
\<close>

theorem disconnect_not_terminal:
  "conn_state (connection (app (run [CallConnect, SocketOpened 0, CallDisconnect] initial_world)))
     = Connected
   \<and> sockets (run [CallConnect, SocketOpened 0, CallDisconnect] initial_world) = [CLOSING]
   \<and> pending HeartbeatTimer (run [CallConnect, SocketOpened 0, CallDisconnect] initial_world) = []
   \<and> conn_state (connection (app
         (run [CallConnect, SocketOpened 0, CallDisconnect, SocketClosed 0] initial_world)))
     = Reconnecting
   \<and> pending ReconnectTimer
         (run [CallConnect, SocketOpened 0, CallDisconnect, SocketClosed 0] initial_world)
     = [1000]
   \<and> isConnected
         (run [CallConnect, SocketOpened 0, CallDisconnect, SocketClosed 0, TimerFired 1,
               SocketOpened 1] initial_world)"
  by (simp add: machine_defs Let_def)

text \<open>The callback of the heartbeat timer changes neither the store nor any timer.\<close>

lemma heartbeat_callback_keeps:
  "app (heartbeat_callback w) = app w \<and> timers (heartbeat_callback w) = timers w
   \<and> client (heartbeat_callback w) = client w \<and> sockets (heartbeat_callback w) = sockets w"
  by (simp add: heartbeat_callback_def split: option.splits)

text \<open>
  Claim C6, on the code. A client is connected and its heartbeat timer runs out with
  nothing received: a ping is sent, the state stays Connected, no reconnection is
  scheduled, and no heartbeat timer is pending any more.
\<close>

theorem heartbeat_timeout_only_pings:
  "conn_state (connection (app (run [CallConnect, SocketOpened 0, TimerFired 0] initial_world)))
     = Connected
   \<and> sent (run [CallConnect, SocketOpened 0, TimerFired 0] initial_world) = [(0, Ping)]
   \<and> pending ReconnectTimer (run [CallConnect, SocketOpened 0, TimerFired 0] initial_world) = []
   \<and> pending HeartbeatTimer (run [CallConnect, SocketOpened 0, TimerFired 0] initial_world) = []"
  by (simp add: machine_defs Let_def)

text \<open>
  Claim C10, on the code. A message arrives for a chat that is not selected and whose
  unread count is \<open>n\<close>: afterwards the count is 1 when \<open>n\<close> was 0, and is still \<open>n\<close>
  otherwise.
\<close>

theorem unread_counter_stuck:
  "map unreadCount (chats_items (chats (app
     (run [CallConnect, SocketOpened 0, SocketMessage 0 (NewMessageData sample_message)]
        (world_with_chats [sample_chat n])))))
   = [if n = 0 then 1 else n]"
  by (simp add: machine_defs world_with_chats_def sample_chat_def sample_message_def
      setChats_def updateChatLastMessage_def updateChatUnreadCount_def next_unreadCount_def
      order_by_desc_def Let_def)

subsection \<open>Writing a message\<close>

lemmas addMessage_defs = addMessage_def addMessage_body_def transaction_def and_then_def
  crash_at_def insertMessage_run_def updateChat_run_def

text \<open>
  The body of addMessage alone is not atomic: a crash between its two statements leaves
  the message inserted and the chat as it was. Only the transaction around it undoes that.
\<close>

lemma addMessage_body_partial:
  "addMessage_body BetweenStatements ''u1'' 7 ''c1'' ''Alice'' ''hi'' 50 one_chat_db
   = (Some Crash, one_chat_db\<lparr>messages_tbl := [new_row ''u1'' 7 ''c1'' ''Alice'' ''hi'' 50]\<rparr>)"
  by (simp add: addMessage_body_def and_then_def crash_at_def insertMessage_run_def
      updateChat_run_def one_chat_db_def new_row_def)

lemma addMessage_crash_rolls_back:
  "addMessage BetweenStatements ''u1'' 7 ''c1'' ''Alice'' ''hi'' 50 one_chat_db
   = (Some Crash, one_chat_db)"
  by (simp add: addMessage_defs one_chat_db_def new_row_def)

text \<open>
  Claim C1. Whatever the arguments, the store and the place of a simulated crash, a call of
  addMessage either throws and leaves the store exactly as it was, or completes and leaves
  the store with both the new message row and the update of the chat's lastMessageAt and
  unreadCount. No other store is ever left behind.
\<close>

theorem addMessage_atomic:
  "(fst (addMessage cp uid now cid sndr bdy t db) \<noteq> None
      \<and> snd (addMessage cp uid now cid sndr bdy t db) = db)
   \<or> (fst (addMessage cp uid now cid sndr bdy t db) = None
      \<and> snd (addMessage cp uid now cid sndr bdy t db)
          = db\<lparr>messages_tbl := messages_tbl db @ [new_row uid now cid sndr bdy t],
               chats_tbl := map (bump_chat t cid) (chats_tbl db)\<rparr>)"
  by (cases cp) (simp_all add: addMessage_defs)

lemma find_map_bump_chat:
  "find (\<lambda>c. cr_id c = cid) (map (bump_chat t cid) cs)
   = map_option (bump_chat t cid) (find (\<lambda>c. cr_id c = cid) cs)"
  by (induction cs) (simp_all add: bump_chat_def)

lemma find_Some_id: "find (\<lambda>c. cr_id c = cid) cs = Some c \<Longrightarrow> cr_id c = cid \<and> c \<in> set cs"
  by (induction cs) (auto split: if_splits)

text \<open>
  Claim C2, as amended. On an existing chat and with a fresh id, addMessage completes, and
  afterwards the chat's lastMessageAt is \<open>ts\<close> itself, its unreadCount is one more than
  before, and its other fields are as before.
\<close>

theorem addMessage_chat_fields:
  assumes "find (\<lambda>c. cr_id c = cid) (chats_tbl db) = Some c"
    and "uid \<notin> set (map mr_id (messages_tbl db))"
  shows "fst (addMessage NoCrash uid now cid sndr bdy t db) = None
       \<and> find (\<lambda>c. cr_id c = cid) (chats_tbl (snd (addMessage NoCrash uid now cid sndr bdy t db)))
           = Some (c\<lparr>cr_lastMessageAt := t, cr_unreadCount := cr_unreadCount c + 1\<rparr>)"
proof -
  have c: "cr_id c = cid" "c \<in> set (chats_tbl db)"
    using find_Some_id[OF assms(1)] by simp_all
  then have "cid \<in> cr_id ` set (chats_tbl db)" by blast
  then have run: "addMessage NoCrash uid now cid sndr bdy t db
      = (None, db\<lparr>messages_tbl := messages_tbl db @ [new_row uid now cid sndr bdy t],
                  chats_tbl := map (bump_chat t cid) (chats_tbl db)\<rparr>)"
    using assms(2) by (simp add: addMessage_defs new_row_def)
  show ?thesis
    unfolding run using assms(1) c(1) by (simp add: find_map_bump_chat bump_chat_def)
qed

theorem addMessage_chat_fields_witness:
  "fst (addMessage NoCrash ''u1'' 7 ''c1'' ''Alice'' ''hi'' 150 one_chat_db) = None
   \<and> find (\<lambda>c. cr_id c = ''c1'')
        (chats_tbl (snd (addMessage NoCrash ''u1'' 7 ''c1'' ''Alice'' ''hi'' 150 one_chat_db)))
      = Some \<lparr>cr_id = ''c1'', cr_title = ''Chat 1'', cr_lastMessageAt = 150,
               cr_unreadCount = 1, cr_createdAt = 0\<rparr>"
  using addMessage_chat_fields
    [of "''c1''" one_chat_db
        "\<lparr>cr_id = ''c1'', cr_title = ''Chat 1'', cr_lastMessageAt = 100,
          cr_unreadCount = 0, cr_createdAt = 0\<rparr>"
        "''u1''" 7 "''Alice''" "''hi''" 150]
  by (simp add: one_chat_db_def)

text \<open>
  The claim as it was stated fails for a timestamp older than the chat's lastMessageAt:
  the chat was last written to at 100, a message of time 50 is added, and lastMessageAt
  becomes 50, not the maximum 100.
\<close>

theorem lastMessageAt_not_max:
  "cr_lastMessageAt (hd (chats_tbl (snd (addMessage NoCrash ''u1'' 7 ''c1'' ''Alice'' ''hi'' 50 one_chat_db))))
     \<noteq> max (cr_lastMessageAt (hd (chats_tbl one_chat_db))) 50"
  by (simp add: addMessage_defs one_chat_db_def new_row_def bump_chat_def)

subsection \<open>The emitter's broadcast\<close>

text \<open>
  Whenever a tick sends a frame, the messageId in it is the emitter's own draw of uuidv4,
  while the row that addMessage created carries the id of the later draw.
\<close>

lemma emitter_tick_ids:
  assumes "emitter_tick env emitting clients db = (frames, db')"
    and "(i, e) \<in> set frames"
  shows "ev_messageId e = tick_uuid env
       \<and> map mr_id (messages_tbl db') = map mr_id (messages_tbl db) @ [add_uuid env]"
proof -
  let ?r = "addMessage NoCrash (add_uuid env) (add_now env)
              (cr_id (chats_tbl db ! (pick_chat env mod length (chats_tbl db))))
              (seed_senders ! (pick_sender env mod length seed_senders))
              (messageTexts ! (pick_body env mod length messageTexts)) (tick_now env) db"
  have sent: "frames \<noteq> []" using assms(2) by auto
  have ok: "fst ?r = None"
    using assms(1) sent
    by (auto simp: emitter_tick_def Let_def split: if_splits prod.splits option.splits)
  have db': "db' = snd ?r" and fr: "ev_messageId e = tick_uuid env"
    using assms sent
    by (auto simp: emitter_tick_def broadcast_def Let_def split: if_splits prod.splits option.splits)
  have "messages_tbl (snd ?r) = messages_tbl db @
          [new_row (add_uuid env) (add_now env)
              (cr_id (chats_tbl db ! (pick_chat env mod length (chats_tbl db))))
              (seed_senders ! (pick_sender env mod length seed_senders))
              (messageTexts ! (pick_body env mod length messageTexts)) (tick_now env)]"
    using ok by (simp add: addMessage_defs split: if_splits)
  then show ?thesis using db' fr by (simp add: new_row_def)
qed

text \<open>
  Claim C9, on the code. One tick on a store with one chat and one open client: the frame
  sent names the message ''u1'', the row created has the id ''u2'', and no message of
  the store has the id ''u1''.
\<close>

theorem broadcast_names_other_id:
  "map (ev_messageId \<circ> snd) (fst (emitter_tick sample_tick True [OPEN] one_chat_db)) = [''u1'']
   \<and> map mr_id (messages_tbl (snd (emitter_tick sample_tick True [OPEN] one_chat_db))) = [''u2'']
   \<and> getMessages ''c1'' 50 0 (snd (emitter_tick sample_tick True [OPEN] one_chat_db))
       = Inr [\<lparr>msg_id = ''u2'', chatId = ''c1'', ts = 200, sender = ''Alice'',
               body = ''Hey, how are you?''\<rparr>]"
  by (simp add: emitter_tick_def sample_tick_def one_chat_db_def broadcast_def addMessage_defs
      new_row_def bump_chat_def seed_senders_def messageTexts_def getMessages_def int64_def
      query_messages_def limit_offset_def order_by_desc_def message_of_row_def Let_def)

subsection \<open>Pages\<close>



lemma length_order_by_desc [simp]: "length (order_by_desc k rows) = length rows"
  by (simp add: order_by_desc_def)

lemma set_order_by_desc [simp]: "set (order_by_desc k rows) = set rows"
  by (simp add: order_by_desc_def)



lemma limit_offset_beyond: "int (length rows) \<le> off \<Longrightarrow> limit_offset l off rows = []"
  by (simp add: limit_offset_def Let_def)











text \<open>
  A limit or an offset outside the 64-bit integers makes both queries throw, whatever the
  store holds.
\<close>

lemma pages_mismatch:
  "getMessages ''a'' 50 (2 ^ 63) tie_db = Inl Mismatch
   \<and> getChats (2 ^ 63) 0 tie_db = Inl Mismatch"
  by (simp add: getChats_def getMessages_def int64_def)

subsection \<open>Further pages in the views\<close>

text \<open>
  loadChats appends a page only from a non-zero offset on; the first page goes through
  setChats, which leaves hasMore as it was. handleLoadOlderMessages always prepends.
\<close>

lemma loadChats_beyond:
  assumes "\<not> chats_isLoading (chats st)" and "chats_hasMore (chats st)"
    and "0 < chats_offset (chats st)" and "length (chats_tbl db) \<le> chats_offset (chats st)"
    and "int (chats_offset (chats st)) < 2 ^ 63"
  shows "\<not> chats_hasMore (chats (loadChats False db st))"
  using assms
  by (simp add: loadChats_def setChatsLoading_def appendChats_def getChats_def int64_def
      query_chats_def limit_offset_beyond Let_def)

lemma loadChats_first_page:
  assumes "\<not> chats_isLoading (chats st)" and "chats_hasMore (chats st)"
    and "chats_offset (chats st) = 0"
  shows "chats_hasMore (chats (loadChats False db st))"
  using assms
  by (simp add: loadChats_def setChatsLoading_def setChats_def getChats_def int64_def Let_def)

lemma handleLoadOlderMessages_beyond:
  assumes "selectedId (chats st) = Some cid"
    and "\<not> messages_isLoading (messages st)" and "messages_hasMore (messages st)"
    and "length (filter (\<lambda>m. mr_chatId m = cid) (messages_tbl db)) \<le> messages_offset (messages st)"
    and "int (messages_offset (messages st)) < 2 ^ 63"
  shows "\<not> messages_hasMore (messages (handleLoadOlderMessages False db st))"
  using assms
  by (simp add: handleLoadOlderMessages_def setMessagesLoading_def prependMessages_def
      getMessages_def int64_def query_messages_def limit_offset_beyond Let_def)

subsection \<open>Searching\<close>

lemma like_percent [simp]: "like ''%'' s"
proof (induction s rule: length_induct)
  case (1 s)
  show ?case
  proof (cases s)
    case Nil
    then show ?thesis by simp
  next
    case (Cons c cs)
    have "length (utf8_tail c cs) < length s"
      using Cons length_dropWhile_le[of utf8_continuation cs] by (simp add: utf8_tail_def)
    with 1 have "like ''%'' (utf8_tail c cs)" by blast
    with Cons show ?thesis by simp
  qed
qed

lemma like_percent_percent [simp]: "like ''%%'' s"
  by (cases s) simp_all
















text \<open>With a pattern that is too long the search throws as soon as the chat has a message.\<close>

lemma search_pattern_too_long:
  "searchMessages ''a'' (replicate 49999 CHR ''x'') tie_db = Inl PatternTooComplex"
  by (simp add: searchMessages_def tie_db_def max_like_pattern_length_def)

subsection \<open>Seeding\<close>

lemma and_then_None:
  "and_then s1 s2 db = (None, d) \<longleftrightarrow> (\<exists>d1. s1 db = (None, d1) \<and> s2 d1 = (None, d))"
  by (auto simp: and_then_def split: prod.splits option.splits)

lemma and_then_ok: "s1 db = (None, d1) \<Longrightarrow> and_then s1 s2 db = s2 d1"
  by (simp add: and_then_def)

lemma insert_messages_chats:
  "insert_messages env now cid n g db = (None, db') \<Longrightarrow> chats_tbl db' = chats_tbl db"
proof (induction n arbitrary: g db)
  case 0
  then show ?case by simp
next
  case (Suc n)
  from Suc.prems obtain d1 where
    1: "insertMessage_run (seed_message env now cid g) db = (None, d1)" and
    2: "insert_messages env now cid n (Suc g) d1 = (None, db')"
    by (auto simp: and_then_None)
  from 1 have "chats_tbl d1 = chats_tbl db"
    by (auto simp: insertMessage_run_def split: if_splits)
  with Suc.IH[OF 2] show ?case by simp
qed

lemma seed_chats_chats:
  "seed_chats env now is g db = (None, db') \<Longrightarrow>
   chats_tbl db' = chats_tbl db @ map (seed_chat env now) is"
proof (induction "is" arbitrary: g db)
  case Nil
  then show ?case by simp
next
  case (Cons i "is")
  from Cons.prems obtain d1 d2 where
    1: "insertChat_run (seed_chat env now i) db = (None, d1)" and
    2: "insert_messages env now (uuid env i) (messageCountPerChat env i) g d1 = (None, d2)" and
    3: "seed_chats env now is (g + messageCountPerChat env i) d2 = (None, db')"
    by (auto simp: and_then_None)
  from 1 have "chats_tbl d1 = chats_tbl db @ [seed_chat env now i]"
    by (auto simp: insertChat_run_def split: if_splits)
  with insert_messages_chats[OF 2] Cons.IH[OF 3] show ?case by simp
qed

lemma insert_messages_messages:
  "insert_messages env now cid n g db = (None, db') \<Longrightarrow>
   messages_tbl db' = messages_tbl db @ map (seed_message env now cid) [g ..< g + n]"
proof (induction n arbitrary: g db)
  case 0
  then show ?case by simp
next
  case (Suc n)
  from Suc.prems obtain d1 where
    1: "insertMessage_run (seed_message env now cid g) db = (None, d1)" and
    2: "insert_messages env now cid n (Suc g) d1 = (None, db')"
    by (auto simp: and_then_None)
  from 1 have "messages_tbl d1 = messages_tbl db @ [seed_message env now cid g]"
    by (auto simp: insertMessage_run_def split: if_splits)
  moreover have "[g ..< g + Suc n] = g # [Suc g ..< Suc g + n]"
    by (simp add: upt_conv_Cons)
  ultimately show ?case using Suc.IH[OF 2] by simp
qed

lemma seed_chats_messages:
  "seed_chats env now is g db = (None, db') \<Longrightarrow>
   length (messages_tbl db')
     = length (messages_tbl db) + sum_list (map (messageCountPerChat env) is)
   \<and> set (map mr_id (messages_tbl db')) \<subseteq> set (map mr_id (messages_tbl db)) \<union> range (uuid env)"
proof (induction "is" arbitrary: g db)
  case Nil
  then show ?case by simp
next
  case (Cons i "is")
  from Cons.prems obtain d1 d2 where
    1: "insertChat_run (seed_chat env now i) db = (None, d1)" and
    2: "insert_messages env now (uuid env i) (messageCountPerChat env i) g d1 = (None, d2)" and
    3: "seed_chats env now is (g + messageCountPerChat env i) d2 = (None, db')"
    by (auto simp: and_then_None)
  from 1 have m1: "messages_tbl d1 = messages_tbl db"
    by (auto simp: insertChat_run_def split: if_splits)
  have m2: "messages_tbl d2
      = messages_tbl db
        @ map (seed_message env now (uuid env i)) [g ..< g + messageCountPerChat env i]"
    using insert_messages_messages[OF 2] m1 by simp
  have len: "length (messages_tbl d2) = length (messages_tbl db) + messageCountPerChat env i"
    unfolding m2 by simp
  have ids: "set (map mr_id (messages_tbl d2))
      \<subseteq> set (map mr_id (messages_tbl db)) \<union> range (uuid env)"
    unfolding m2 by (auto simp: seed_message_def)
  from Cons.IH[OF 3] have len': "length (messages_tbl db')
      = length (messages_tbl d2) + sum_list (map (messageCountPerChat env) is)"
    and ids': "set (map mr_id (messages_tbl db'))
      \<subseteq> set (map mr_id (messages_tbl d2)) \<union> range (uuid env)"
    by simp_all
  have "length (messages_tbl db')
      = length (messages_tbl db) + sum_list (map (messageCountPerChat env) (i # is))"
    using len len' by simp
  moreover have "set (map mr_id (messages_tbl db'))
      \<subseteq> set (map mr_id (messages_tbl db)) \<union> range (uuid env)"
    using ids ids' by blast
  ultimately show ?case by (rule conjI)
qed

lemma set_lastMessageAt_keeps:
  "map cr_id (map (set_lastMessageAt t cid) cs) = map cr_id cs"
  "map cr_title (map (set_lastMessageAt t cid) cs) = map cr_title cs"
  by (induction cs) (simp_all add: set_lastMessageAt_def)

lemma refresh_chat_keeps:
  "fst (refresh_chat cid db) = None
   \<and> map cr_id (chats_tbl (snd (refresh_chat cid db))) = map cr_id (chats_tbl db)
   \<and> map cr_title (chats_tbl (snd (refresh_chat cid db))) = map cr_title (chats_tbl db)
   \<and> messages_tbl (snd (refresh_chat cid db)) = messages_tbl db"
  by (simp add: refresh_chat_def set_lastMessageAt_def split: option.splits)

lemma refresh_chats_keeps:
  "fst (refresh_chats cids db) = None
   \<and> map cr_id (chats_tbl (snd (refresh_chats cids db))) = map cr_id (chats_tbl db)
   \<and> map cr_title (chats_tbl (snd (refresh_chats cids db))) = map cr_title (chats_tbl db)
   \<and> messages_tbl (snd (refresh_chats cids db)) = messages_tbl db"
proof (induction cids arbitrary: db)
  case Nil
  then show ?case by simp
next
  case (Cons cid cids)
  obtain d1 where 1: "refresh_chat cid db = (None, d1)"
    using refresh_chat_keeps[of cid db] by (cases "refresh_chat cid db") auto
  then have "map cr_id (chats_tbl d1) = map cr_id (chats_tbl db)"
    "map cr_title (chats_tbl d1) = map cr_title (chats_tbl db)"
    "messages_tbl d1 = messages_tbl db"
    using refresh_chat_keeps[of cid db] by simp_all
  with Cons.IH[of d1] 1 show ?case by (simp add: and_then_ok)
qed

text \<open>
  A seeding that completes, on whatever store, leaves 200 chats more than there were,
  with the titles Chat 1 to Chat 200, and as many messages more as it drew; the ids it
  adds are values of uuidv4.
\<close>

lemma seedData_adds:
  assumes "seedData env now db = (None, db')"
  shows "length (chats_tbl db') = length (chats_tbl db) + 200"
    and "map cr_title (chats_tbl db') = map cr_title (chats_tbl db) @ seed_titles"
    and "length (messages_tbl db')
           = length (messages_tbl db) + sum_list (map (messageCountPerChat env) [0..<200])"
    and "set (map cr_id (chats_tbl db')) \<subseteq> set (map cr_id (chats_tbl db)) \<union> range (uuid env)"
    and "set (map mr_id (messages_tbl db'))
           \<subseteq> set (map mr_id (messages_tbl db)) \<union> range (uuid env)"
proof -
  from assms obtain d1 where
    1: "seed_chats env now [0..<200] 0 db = (None, d1)" and
    2: "refresh_chats (map (uuid env) [0..<200]) d1 = (None, db')"
    by (auto simp: seedData_def transaction_def and_then_None split: prod.splits option.splits)
  have c1: "chats_tbl d1 = chats_tbl db @ map (seed_chat env now) [0..<200]"
    using seed_chats_chats[OF 1] .
  have keep: "map cr_id (chats_tbl db') = map cr_id (chats_tbl d1)"
    "map cr_title (chats_tbl db') = map cr_title (chats_tbl d1)"
    "messages_tbl db' = messages_tbl d1"
    using refresh_chats_keeps[of "map (uuid env) [0..<200]" d1] 2 by simp_all
  have "length (chats_tbl db') = length (map cr_id (chats_tbl db'))" by simp
  also have "\<dots> = length (chats_tbl d1)" unfolding keep(1) by simp
  finally show "length (chats_tbl db') = length (chats_tbl db) + 200"
    unfolding c1 by simp
  show "map cr_title (chats_tbl db') = map cr_title (chats_tbl db) @ seed_titles"
    unfolding keep(2) c1 by (simp add: seed_titles_def seed_chat_def)
  show "length (messages_tbl db')
          = length (messages_tbl db) + sum_list (map (messageCountPerChat env) [0..<200])"
    unfolding keep(3) using seed_chats_messages[OF 1] by simp
  have "set (map cr_id (chats_tbl d1)) \<subseteq> set (map cr_id (chats_tbl db)) \<union> range (uuid env)"
    unfolding c1 by (auto simp: seed_chat_def)
  then show "set (map cr_id (chats_tbl db')) \<subseteq> set (map cr_id (chats_tbl db)) \<union> range (uuid env)"
    unfolding keep(1) .
  show "set (map mr_id (messages_tbl db'))
          \<subseteq> set (map mr_id (messages_tbl db)) \<union> range (uuid env)"
    unfolding keep(3) using seed_chats_messages[OF 1] by simp
qed

lemma seedData_rollback: "fst (seedData env now db) \<noteq> None \<Longrightarrow> snd (seedData env now db) = db"
  by (auto simp: seedData_def transaction_def split: prod.splits option.splits)

text \<open>
  The guard is in initializeDatabase, and there it holds: a call that completes leaves a
  store with chats, 200 of them when the store had none and the store as it was
  otherwise; and a second call, whatever it would draw, changes nothing.
\<close>

lemma initializeDatabase_guarded:
  assumes "fst (initializeDatabase env now db) = None"
  shows "chats_tbl (snd (initializeDatabase env now db)) \<noteq> []
       \<and> (if chats_tbl db = [] then length (chats_tbl (snd (initializeDatabase env now db))) = 200
          else snd (initializeDatabase env now db) = db)
       \<and> initializeDatabase env' now' (snd (initializeDatabase env now db))
           = (None, snd (initializeDatabase env now db))"
proof (cases "chats_tbl db = []")
  case True
  then have eq: "initializeDatabase env now db = seedData env now db"
    by (simp add: initializeDatabase_def)
  with assms have "seedData env now db = (None, snd (seedData env now db))"
    by (metis prod.collapse)
  from seedData_adds(1)[OF this] True
  have len: "length (chats_tbl (snd (seedData env now db))) = 200" by simp
  then have "chats_tbl (snd (seedData env now db)) \<noteq> []" by auto
  with len True show ?thesis
    unfolding eq by (simp add: initializeDatabase_def)
next
  case False
  then show ?thesis by (simp add: initializeDatabase_def)
qed

text \<open>
  When uuidv4 never repeats itself and returns no id that the store already holds, both
  loops of the seeding run to their end.
\<close>

lemma insert_messages_ok:
  assumes "inj (uuid env)"
    and "\<And>k. g \<le> k \<Longrightarrow> uuid env (200 + k) \<notin> set (map mr_id (messages_tbl db))"
    and "cid \<in> set (map cr_id (chats_tbl db))"
  shows "\<exists>db'. insert_messages env now cid n g db = (None, db')
           \<and> set (map mr_id (messages_tbl db'))
               = set (map mr_id (messages_tbl db)) \<union> (\<lambda>k. uuid env (200 + k)) ` {g ..< g + n}"
  using assms
proof (induction n arbitrary: g db)
  case 0
  then show ?case by simp
next
  case (Suc n)
  let ?d1 = "db\<lparr>messages_tbl := messages_tbl db @ [seed_message env now cid g]\<rparr>"
  have 1: "insertMessage_run (seed_message env now cid g) db = (None, ?d1)"
    using Suc.prems(2)[of g] Suc.prems(3)
    by (simp add: insertMessage_run_def seed_message_def)
  have fresh: "uuid env (200 + k) \<notin> set (map mr_id (messages_tbl ?d1))" if "Suc g \<le> k" for k
  proof -
    have "uuid env (200 + k) \<noteq> uuid env (200 + g)"
      using that Suc.prems(1) by (auto dest: injD)
    moreover have "uuid env (200 + k) \<notin> set (map mr_id (messages_tbl db))"
      using that Suc.prems(2)[of k] by simp
    ultimately show ?thesis by (simp add: seed_message_def)
  qed
  have "cid \<in> set (map cr_id (chats_tbl ?d1))" using Suc.prems(3) by simp
  from Suc.IH[OF Suc.prems(1) fresh this]
  obtain db' where 2: "insert_messages env now cid n (Suc g) ?d1 = (None, db')"
    and 3: "set (map mr_id (messages_tbl db'))
            = set (map mr_id (messages_tbl ?d1)) \<union> (\<lambda>k. uuid env (200 + k)) ` {Suc g ..< Suc g + n}"
    by blast
  have "{g ..< g + Suc n} = insert g {Suc g ..< Suc g + n}" by auto
  then have "set (map mr_id (messages_tbl db'))
      = set (map mr_id (messages_tbl db)) \<union> (\<lambda>k. uuid env (200 + k)) ` {g ..< g + Suc n}"
    using 3 by (simp add: seed_message_def)
  with 1 2 show ?case by (simp add: and_then_ok)
qed

lemma seed_chats_ok:
  assumes "inj (uuid env)"
    and "\<And>k. g \<le> k \<Longrightarrow> uuid env (200 + k) \<notin> set (map mr_id (messages_tbl db))"
    and "\<And>i. i \<in> set is \<Longrightarrow> uuid env i \<notin> set (map cr_id (chats_tbl db))"
    and "distinct is"
  shows "fst (seed_chats env now is g db) = None"
  using assms
proof (induction "is" arbitrary: g db)
  case Nil
  then show ?case by simp
next
  case (Cons i "is")
  let ?d1 = "db\<lparr>chats_tbl := chats_tbl db @ [seed_chat env now i]\<rparr>"
  let ?n = "messageCountPerChat env i"
  have 1: "insertChat_run (seed_chat env now i) db = (None, ?d1)"
    using Cons.prems(3)[of i] by (simp add: insertChat_run_def seed_chat_def)
  have f1: "\<And>k. g \<le> k \<Longrightarrow> uuid env (200 + k) \<notin> set (map mr_id (messages_tbl ?d1))"
    using Cons.prems(2) by simp
  have c1: "uuid env i \<in> set (map cr_id (chats_tbl ?d1))"
    by (simp add: seed_chat_def)
  have "\<exists>d2. insert_messages env now (uuid env i) ?n g ?d1 = (None, d2)
          \<and> set (map mr_id (messages_tbl d2))
              = set (map mr_id (messages_tbl ?d1)) \<union> (\<lambda>k. uuid env (200 + k)) ` {g ..< g + ?n}"
    using Cons.prems(1) f1 c1 by (rule insert_messages_ok)
  then obtain d2 where 2: "insert_messages env now (uuid env i) ?n g ?d1 = (None, d2)"
    and 3: "set (map mr_id (messages_tbl d2))
            = set (map mr_id (messages_tbl ?d1)) \<union> (\<lambda>k. uuid env (200 + k)) ` {g ..< g + ?n}"
    by blast
  have ch: "chats_tbl d2 = chats_tbl ?d1"
    using insert_messages_chats[OF 2] .
  have f2: "uuid env (200 + k) \<notin> set (map mr_id (messages_tbl d2))" if "g + ?n \<le> k" for k
  proof -
    have "uuid env (200 + k) \<notin> (\<lambda>k. uuid env (200 + k)) ` {g ..< g + ?n}"
      using that Cons.prems(1) by (auto dest: injD)
    moreover have "uuid env (200 + k) \<notin> set (map mr_id (messages_tbl db))"
      using that Cons.prems(2)[of k] by simp
    ultimately show ?thesis using 3 by simp
  qed
  have c2: "uuid env j \<notin> set (map cr_id (chats_tbl d2))" if "j \<in> set is" for j
  proof -
    have "j \<noteq> i" using that Cons.prems(4) by auto
    then have "uuid env j \<noteq> uuid env i" using Cons.prems(1) by (auto dest: injD)
    moreover have "uuid env j \<notin> set (map cr_id (chats_tbl db))"
      using that Cons.prems(3)[of j] by simp
    ultimately show ?thesis using ch by (simp add: seed_chat_def)
  qed
  have "distinct is" using Cons.prems(4) by simp
  from Cons.IH[OF Cons.prems(1) f2 c2 this]
  have "fst (seed_chats env now is (g + ?n) d2) = None" .
  with 1 2 show ?case by (simp add: and_then_ok)
qed

lemma seedData_ok:
  assumes "inj (uuid env)"
    and "\<And>k. uuid env k \<notin> set (map mr_id (messages_tbl db))"
    and "\<And>k. uuid env k \<notin> set (map cr_id (chats_tbl db))"
  shows "fst (seedData env now db) = None"
proof -
  have "fst (seed_chats env now [0..<200] 0 db) = None"
    using assms by (intro seed_chats_ok) simp_all
  then obtain d1 where 1: "seed_chats env now [0..<200] 0 db = (None, d1)"
    by (cases "seed_chats env now [0..<200] 0 db") auto
  obtain d2 where 2: "refresh_chats (map (uuid env) [0..<200]) d1 = (None, d2)"
    using refresh_chats_keeps[of "map (uuid env) [0..<200]" d1]
    by (cases "refresh_chats (map (uuid env) [0..<200]) d1") auto
  show ?thesis
    using 1 2 by (simp add: seedData_def transaction_def and_then_ok)
qed

lemma inj_sample_uuid: "inj (uuid sample_seed)" "inj (uuid later_seed)"
proof -
  have "inj (\<lambda>n. replicate (Suc n) c)" for c :: char
  proof (rule injI)
    fix x y assume "replicate (Suc x) c = replicate (Suc y) c"
    then have "length (replicate (Suc x) c) = length (replicate (Suc y) c)"
      by (rule arg_cong)
    then show "x = y" by simp
  qed
  then show "inj (uuid sample_seed)" "inj (uuid later_seed)"
    by (simp_all add: sample_seed_def later_seed_def)
qed

lemma sample_seed_completes:
  "fst (seedData sample_seed now one_chat_db) = None"
  "fst (seedData sample_seed now empty_db) = None"
proof -
  have "uuid sample_seed k \<noteq> ''c1''" for k
    by (simp add: sample_seed_def)
  then show "fst (seedData sample_seed now one_chat_db) = None"
    using inj_sample_uuid(1) by (intro seedData_ok) (simp_all add: one_chat_db_def)
  show "fst (seedData sample_seed now empty_db) = None"
    using inj_sample_uuid(1) by (intro seedData_ok) (simp_all add: empty_db_def)
qed

lemma sample_seed_messages:
  "sum_list (map (messageCountPerChat sample_seed) [0..<200]) = 20000"
  "sum_list (map (messageCountPerChat later_seed) [0..<200]) = 20000"
proof -
  have "messageCountPerChat sample_seed = (\<lambda>i. 100)"
    "messageCountPerChat later_seed = (\<lambda>i. 100)"
    by (simp_all add: fun_eq_iff messageCountPerChat_def sample_seed_def later_seed_def)
  then show "sum_list (map (messageCountPerChat sample_seed) [0..<200]) = 20000"
    "sum_list (map (messageCountPerChat later_seed) [0..<200]) = 20000"
    by (simp_all add: sum_list_triv)
qed

lemma seeded_once:
  "seedData sample_seed 0 empty_db = (None, seeded_once)"
  "length (chats_tbl seeded_once) = 200"
  "map cr_title (chats_tbl seeded_once) = seed_titles"
  "length (messages_tbl seeded_once) = 20000"
  "set (map cr_id (chats_tbl seeded_once)) \<subseteq> range (uuid sample_seed)"
  "set (map mr_id (messages_tbl seeded_once)) \<subseteq> range (uuid sample_seed)"
proof -
  show 1: "seedData sample_seed 0 empty_db = (None, seeded_once)"
    using sample_seed_completes(2)[of 0]
    by (simp add: seeded_once_def ipc_seedData_def prod_eq_iff)
  show "length (chats_tbl seeded_once) = 200"
    using seedData_adds(1)[OF 1] by (simp add: empty_db_def)
  show "map cr_title (chats_tbl seeded_once) = seed_titles"
    using seedData_adds(2)[OF 1] by (simp add: empty_db_def)
  show "length (messages_tbl seeded_once) = 20000"
    using seedData_adds(3)[OF 1] by (simp add: empty_db_def sample_seed_messages)
  show "set (map cr_id (chats_tbl seeded_once)) \<subseteq> range (uuid sample_seed)"
    using seedData_adds(4)[OF 1] by (simp add: empty_db_def)
  show "set (map mr_id (messages_tbl seeded_once)) \<subseteq> range (uuid sample_seed)"
    using seedData_adds(5)[OF 1] by (simp add: empty_db_def)
qed

lemma later_seed_fresh: "uuid later_seed k \<notin> range (uuid sample_seed)"
proof
  assume "uuid later_seed k \<in> range (uuid sample_seed)"
  then obtain n where "replicate (Suc k) CHR ''v'' = replicate (Suc n) CHR ''u''"
    by (auto simp: later_seed_def sample_seed_def)
  then have "hd (replicate (Suc k) CHR ''v'') = hd (replicate (Suc n) CHR ''u'')"
    by (rule arg_cong)
  then show False by simp
qed

lemma seeded_twice:
  "seedData later_seed 1 seeded_once = (None, seeded_twice)"
  "length (chats_tbl seeded_twice) = 400"
  "map cr_title (chats_tbl seeded_twice) = seed_titles @ seed_titles"
  "length (messages_tbl seeded_twice) = 40000"
proof -
  have "fst (seedData later_seed 1 seeded_once) = None"
  proof (intro seedData_ok inj_sample_uuid(2))
    show "uuid later_seed k \<notin> set (map mr_id (messages_tbl seeded_once))" for k
      using seeded_once(6) later_seed_fresh[of k] by blast
    show "uuid later_seed k \<notin> set (map cr_id (chats_tbl seeded_once))" for k
      using seeded_once(5) later_seed_fresh[of k] by blast
  qed
  then show 1: "seedData later_seed 1 seeded_once = (None, seeded_twice)"
    by (simp add: seeded_twice_def ipc_seedData_def prod_eq_iff)
  show "length (chats_tbl seeded_twice) = 400"
    using seedData_adds(1)[OF 1] by (simp add: seeded_once(2))
  show "map cr_title (chats_tbl seeded_twice) = seed_titles @ seed_titles"
    using seedData_adds(2)[OF 1] by (simp add: seeded_once(3))
  show "length (messages_tbl seeded_twice) = 40000"
    using seedData_adds(3)[OF 1] by (simp add: seeded_once(4) sample_seed_messages)
qed

lemma launch_one_chat:
  "launch sample_seed 0 sample_seed 1 one_chat_db = snd (seedData sample_seed 1 one_chat_db)"
  "length (chats_tbl (snd (seedData sample_seed 1 one_chat_db))) = 201"
  "length (messages_tbl (snd (seedData sample_seed 1 one_chat_db))) = 20000"
proof -
  show "launch sample_seed 0 sample_seed 1 one_chat_db = snd (seedData sample_seed 1 one_chat_db)"
    by (simp add: launch_def initializeDatabase_def ipc_seedData_def one_chat_db_def)
  have 1: "seedData sample_seed 1 one_chat_db = (None, snd (seedData sample_seed 1 one_chat_db))"
    using sample_seed_completes(1)[of 1] by (simp add: prod_eq_iff)
  show "length (chats_tbl (snd (seedData sample_seed 1 one_chat_db))) = 201"
    using seedData_adds(1)[OF 1] by (simp add: one_chat_db_def)
  show "length (messages_tbl (snd (seedData sample_seed 1 one_chat_db))) = 20000"
    using seedData_adds(3)[OF 1] by (simp add: one_chat_db_def sample_seed_messages)
qed

text \<open>
  Claim C8, on the code. The seeding that is exposed, the handler of \<^verbatim>\<open>db:seedData\<close>,
  calls seedData, which has no guard. Called on the empty store it completes and leaves
  200 chats and 20000 messages; called again, on that store, it completes as well and
  leaves 400 chats, every title from Chat 1 to Chat 200 twice, and 40000 messages. That
  is the store after the first launch of the program, since App calls the exposed seeding
  after the main process has run initializeDatabase; and a launch on a store that holds
  one chat and no message leaves 201 chats and 20000 messages.
\<close>

theorem exposed_seed_not_guarded:
  "ipc_seedData sample_seed 0 empty_db = (None, seeded_once)
   \<and> length (chats_tbl seeded_once) = 200
   \<and> length (messages_tbl seeded_once) = 20000
   \<and> ipc_seedData later_seed 1 seeded_once = (None, seeded_twice)
   \<and> length (chats_tbl seeded_twice) = 400
   \<and> map cr_title (chats_tbl seeded_twice) = seed_titles @ seed_titles
   \<and> length (messages_tbl seeded_twice) = 40000
   \<and> seeded_twice \<noteq> seeded_once
   \<and> launch sample_seed 0 later_seed 1 empty_db = seeded_twice
   \<and> length (chats_tbl one_chat_db) = 1
   \<and> length (messages_tbl one_chat_db) = 0
   \<and> length (chats_tbl (launch sample_seed 0 sample_seed 1 one_chat_db)) = 201
   \<and> length (messages_tbl (launch sample_seed 0 sample_seed 1 one_chat_db)) = 20000"
proof -
  have a: "ipc_seedData sample_seed 0 empty_db = (None, seeded_once)"
    using seeded_once(1) by (simp add: ipc_seedData_def)
  have b: "ipc_seedData later_seed 1 seeded_once = (None, seeded_twice)"
    using seeded_twice(1) by (simp add: ipc_seedData_def)
  have c: "seeded_twice \<noteq> seeded_once"
    using seeded_twice(2) seeded_once(2) by auto
  have d: "launch sample_seed 0 later_seed 1 empty_db = seeded_twice"
    using seeded_once(1) b by (simp add: launch_def initializeDatabase_def empty_db_def)
  have e: "length (chats_tbl one_chat_db) = 1" "length (messages_tbl one_chat_db) = 0"
    by (simp_all add: one_chat_db_def)
  have f: "length (chats_tbl (launch sample_seed 0 sample_seed 1 one_chat_db)) = 201"
    "length (messages_tbl (launch sample_seed 0 sample_seed 1 one_chat_db)) = 20000"
    unfolding launch_one_chat(1) by (rule launch_one_chat(2), rule launch_one_chat(3))
  show ?thesis
    by (intro conjI a b c d e f seeded_once(2) seeded_once(4) seeded_twice(2) seeded_twice(3)
        seeded_twice(4))
qed

end
